theory Spec2Isabelle
  imports Main "HOL-Library.Monad_Syntax"
begin

unbundle bit_operations_syntax

section \<open>Layout constants of mm.c\<close>

text \<open>
  The macros of \<^verbatim>\<open>mm.c\<close> on an LP64 target, where \<^verbatim>\<open>__SIZEOF_POINTER__\<close> is 8 and
  \<^verbatim>\<open>unsigned long\<close> is one 8-byte word. Addresses are byte addresses (\<open>nat\<close>); the null
  pointer is address 0.
\<close>

definition ALIGNMENT :: nat where "ALIGNMENT = 8"
definition WSIZE :: nat where "WSIZE = 8"
definition DSIZE :: nat where "DSIZE = 2 * WSIZE"
definition CHUNKSIZE :: nat where "CHUNKSIZE = 2 ^ 12 + DSIZE"
definition INITSIZE :: nat where "INITSIZE = 2 ^ 7 + DSIZE"
definition LISTSIZE :: nat where "LISTSIZE = 16"

definition ALIGN :: "nat \<Rightarrow> nat" where
  "ALIGN sz = ((sz + (ALIGNMENT - 1)) div ALIGNMENT) * ALIGNMENT"

definition MINBLOCK :: nat where
  \<comment> \<open>"minimum block size is 4 words" (comment in \<^verbatim>\<open>mm_malloc\<close>)\<close>
  "MINBLOCK = 4 * WSIZE"

section \<open>The store\<close>

text \<open>
  All allocator state lives in the managed region except the global \<^verbatim>\<open>heap_ptr\<close>.
  \<open>mem\<close> gives the 8-byte word stored at a byte address; every access of the program
  is a word access at a word-aligned address. \<open>mem_brk\<close> and \<open>mem_max_addr\<close> are the
  state of the external region-growth primitive.
\<close>

record state =
  mem :: "nat \<Rightarrow> nat"
  heap_ptr :: nat
  mem_brk :: nat
  mem_max_addr :: nat

definition GET :: "state \<Rightarrow> nat \<Rightarrow> nat" where
  "GET s p = mem s p"

definition PUT :: "state \<Rightarrow> nat \<Rightarrow> nat \<Rightarrow> state" where
  "PUT s p val = s\<lparr>mem := (mem s)(p := val)\<rparr>"

definition PACK :: "nat \<Rightarrow> nat \<Rightarrow> nat" where
  "PACK sz alloc = sz OR alloc"

definition GET_SIZE :: "state \<Rightarrow> nat \<Rightarrow> nat" where
  \<comment> \<open>\<^verbatim>\<open>GET(p) & ~0x7\<close>: the word with its three low bits cleared\<close>
  "GET_SIZE s p = GET s p - GET s p mod 8"

definition GET_ALLOC :: "state \<Rightarrow> nat \<Rightarrow> nat" where
  \<comment> \<open>\<^verbatim>\<open>GET(p) & 0x1\<close>\<close>
  "GET_ALLOC s p = GET s p mod 2"

definition HDRP :: "nat \<Rightarrow> nat" where
  "HDRP bp = bp - WSIZE"

definition FTRP :: "state \<Rightarrow> nat \<Rightarrow> nat" where
  "FTRP s bp = bp + GET_SIZE s (HDRP bp) - DSIZE"

definition NEXT_BLKP :: "state \<Rightarrow> nat \<Rightarrow> nat" where
  "NEXT_BLKP s bp = bp + GET_SIZE s (bp - WSIZE)"

definition PREV_BLKP :: "state \<Rightarrow> nat \<Rightarrow> nat" where
  "PREV_BLKP s bp = bp - GET_SIZE s (bp - DSIZE)"

definition PRED_BLKP :: "state \<Rightarrow> nat \<Rightarrow> nat" where
  "PRED_BLKP s bp = GET s bp"

definition SUCC_BLKP :: "state \<Rightarrow> nat \<Rightarrow> nat" where
  "SUCC_BLKP s bp = GET s (bp + WSIZE)"

definition freelists :: "state \<Rightarrow> nat \<Rightarrow> nat" where
  "freelists s index = heap_ptr s - (LISTSIZE + 1 - index) * WSIZE"

section \<open>Parts of the repository that are not in mm.c as given\<close>

text \<open>
  \<^verbatim>\<open>mm.c\<close> declares \<^verbatim>\<open>extend_heap\<close>, \<^verbatim>\<open>coalesce\<close>, \<^verbatim>\<open>place\<close>, \<^verbatim>\<open>add_free\<close>,
  \<^verbatim>\<open>pop_free\<close> and \<^verbatim>\<open>align_size\<close> but their bodies are missing, and \<^verbatim>\<open>mem_sbrk\<close>
  belongs to \<^verbatim>\<open>memlib\<close>. They are modelled from the specification. What the
  specification leaves open is a parameter.
\<close>

record tuning =
  align_size :: "nat \<Rightarrow> nat"
  class_of :: "nat \<Rightarrow> nat"
  min_chunk :: nat

text \<open>
  Modelled from the spec: \<^verbatim>\<open>align_size\<close> ("round the requested size up to the minimum
  block size and alignment unit"), the size-class mapping \<open>class_of\<close> ("the exact mapping
  from size to class index is an internal tuning policy") and the minimum chunk size of
  a growth request are the three fields of \<open>tuning\<close>; every function below takes them
  as its first argument.
\<close>

definition mem_sbrk :: "state \<Rightarrow> nat \<Rightarrow> (nat \<times> state) option" where
  \<comment> \<open>Modelled from the spec: the external region-growth primitive. It "extends the
     managed region contiguously upward by exactly \<open>bytes\<close> and returns the address
     immediately following the previous end", or fails (\<open>None\<close>, the C value
     \<^verbatim>\<open>(void *) -1\<close>); it fails exactly when the request passes \<open>mem_max_addr\<close>.\<close>
  "mem_sbrk s incr =
     (if mem_brk s + incr > mem_max_addr s then None
      else Some (mem_brk s, s\<lparr>mem_brk := mem_brk s + incr\<rparr>))"

definition pop_free :: "tuning \<Rightarrow> state \<Rightarrow> nat \<Rightarrow> state" where
  \<comment> \<open>Modelled from the spec: \<^verbatim>\<open>pop_free\<close>. "Splices the block out using its stored
     predecessor/successor links, updating the class head if the block was first."\<close>
  "pop_free P s ptr =
     (let pred = PRED_BLKP s ptr;
          succ = SUCC_BLKP s ptr;
          s1 = (if pred = 0
                then PUT s (freelists s (class_of P (GET_SIZE s (HDRP ptr)))) succ
                else PUT s (pred + WSIZE) succ)
      in if succ = 0 then s1 else PUT s1 succ pred)"

partial_function (option) find_pos :: "state \<Rightarrow> nat \<Rightarrow> nat \<Rightarrow> nat \<Rightarrow> (nat \<times> nat) option" where
  "find_pos s sz prev cur =
     (if cur = 0 \<or> sz \<le> GET_SIZE s (HDRP cur) then Some (prev, cur)
      else find_pos s sz cur (SUCC_BLKP s cur))"

declare find_pos.simps [code]

text \<open>
  Modelled from the spec: the list walk of \<^verbatim>\<open>add_free\<close>. It "walks that class's list
  from the head" up to "the first entry whose size is \<open>\<ge>\<close> size(block)" and returns that
  entry with the one before it. On a cyclic list the walk does not return (\<open>None\<close>).
\<close>

definition add_free :: "tuning \<Rightarrow> state \<Rightarrow> nat \<Rightarrow> nat \<Rightarrow> state option" where
  \<comment> \<open>Modelled from the spec: \<^verbatim>\<open>add_free(ptr, size)\<close>. "Computes class_of(size(block)),
     then walks that class's list from the head, inserting before the first entry whose
     size is \<open>\<ge>\<close> size(block)."\<close>
  "add_free P s ptr sz =
     (let slot = freelists s (class_of P sz) in
      case find_pos s sz 0 (GET s slot) of
        None \<Rightarrow> None
      | Some (prev, cur) \<Rightarrow>
          (let s1 = PUT s ptr prev;
               s2 = PUT s1 (ptr + WSIZE) cur;
               s3 = (if prev = 0 then PUT s2 slot ptr else PUT s2 (prev + WSIZE) ptr)
           in Some (if cur = 0 then s3 else PUT s3 cur ptr)))"

definition merge_blocks :: "tuning \<Rightarrow> state \<Rightarrow> nat \<Rightarrow> nat \<Rightarrow> state option" where
  \<comment> \<open>Modelled from the spec: one merge of \<^verbatim>\<open>coalesce\<close>, of the free block \<open>lo\<close> with
     its free right neighbour \<open>hi\<close>: "remove it from its list, merge sizes, and
     remove/re-insert the combined block".\<close>
  "merge_blocks P s lo hi =
     (let sz = GET_SIZE s (HDRP lo) + GET_SIZE s (HDRP hi);
          s1 = pop_free P s hi;
          s2 = pop_free P s1 lo;
          s3 = PUT s2 (HDRP lo) (PACK sz 0);
          s4 = PUT s3 (FTRP s3 lo) (PACK sz 0)
      in add_free P s4 lo sz)"

definition coalesce :: "tuning \<Rightarrow> state \<Rightarrow> nat \<Rightarrow> (nat \<times> state) option" where
  \<comment> \<open>Modelled from the spec: \<^verbatim>\<open>coalesce\<close>. "Inspect the right neighbor; if free, [merge].
     Inspect the left neighbor (via the footer-assisted backward step); if free, perform
     the symmetric merge." The left neighbour's allocation bit is read from the boundary
     tag before the block's header; only if it is free is the tag's size used.\<close>
  "coalesce P s bp =
     (case (if GET_ALLOC s (HDRP (NEXT_BLKP s bp)) = 0
            then merge_blocks P s bp (NEXT_BLKP s bp) else Some s) of
        None \<Rightarrow> None
      | Some s1 \<Rightarrow>
          if GET_ALLOC s1 (bp - DSIZE) = 0
          then (case merge_blocks P s1 (PREV_BLKP s1 bp) bp of
                  None \<Rightarrow> None
                | Some s2 \<Rightarrow> Some (PREV_BLKP s1 bp, s2))
          else Some (bp, s1))"

definition extend_heap :: "tuning \<Rightarrow> state \<Rightarrow> nat \<Rightarrow> (nat \<times> state) option" where
  \<comment> \<open>Modelled from the spec: \<^verbatim>\<open>extend_heap\<close>. "Requests at least \<open>min_bytes\<close> (rounded up
     to alignment, and up to a minimum chunk size) from the external primitive. Fails
     [with] no partial mutation. On success: formats the newly granted bytes as one free
     block, overwrites the old epilogue (now the free block's header) and writes a new
     epilogue at the new end of the region, then calls the merge step." The result
     address 0 is the C value \<^verbatim>\<open>NULL\<close>.\<close>
  "extend_heap P s sz =
     (let asize = max (ALIGN sz) (min_chunk P) in
      case mem_sbrk s asize of
        None \<Rightarrow> Some (0, s)
      | Some (bp, s1) \<Rightarrow>
          (let s2 = PUT s1 (HDRP bp) (PACK asize 0);
               s3 = PUT s2 (FTRP s2 bp) (PACK asize 0);
               s4 = PUT s3 (HDRP (NEXT_BLKP s3 bp)) (PACK 0 1)
           in case add_free P s4 bp asize of
                None \<Rightarrow> None
              | Some s5 \<Rightarrow> coalesce P s5 bp))"

definition place :: "tuning \<Rightarrow> state \<Rightarrow> nat \<Rightarrow> nat \<Rightarrow> (nat \<times> state) option" where
  \<comment> \<open>Modelled from the spec: \<^verbatim>\<open>place\<close>. "Remove the chosen/grown free block from its list,
     split it: if the leftover after carving out \<open>need\<close> bytes is at least the minimum
     block size, shrink the found block to \<open>need\<close>, mark the remainder as a new free block
     and insert it into the directory; otherwise keep the whole block. Mark the resulting
     block allocated and return its payload address." Header and footer are both
     written, as \<^verbatim>\<open>mm_realloc\<close> does for the block it extends.\<close>
  "place P s bp asize =
     (let csize = GET_SIZE s (HDRP bp);
          s1 = pop_free P s bp
      in if asize + MINBLOCK \<le> csize
         then (let s2 = PUT s1 (HDRP bp) (PACK asize 1);
                   s3 = PUT s2 (FTRP s2 bp) (PACK asize 1);
                   nb = NEXT_BLKP s3 bp;
                   s4 = PUT s3 (HDRP nb) (PACK (csize - asize) 0);
                   s5 = PUT s4 (FTRP s4 nb) (PACK (csize - asize) 0)
               in case add_free P s5 nb (csize - asize) of
                    None \<Rightarrow> None
                  | Some s6 \<Rightarrow> Some (bp, s6))
         else (let s2 = PUT s1 (HDRP bp) (PACK csize 1);
                   s3 = PUT s2 (FTRP s2 bp) (PACK csize 1)
               in Some (bp, s3)))"

section \<open>The public functions of mm.c\<close>

text \<open>
  A result \<open>None\<close> means that the call does not return (a list walk that never ends).
  Pointer results are addresses, 0 for \<^verbatim>\<open>NULL\<close>.
\<close>

function init_lists :: "state \<Rightarrow> nat \<Rightarrow> state" where
  "init_lists s i =
     (if i < LISTSIZE + 1 then init_lists (PUT s (heap_ptr s + i * WSIZE) 0) (i + 1) else s)"
  by pat_completeness auto
termination
  by (relation "measure (\<lambda>(s, i). LISTSIZE + 1 - i)") auto

declare init_lists.simps [simp del]

text \<open>
  \<open>init_lists s i\<close> is the \<^verbatim>\<open>for\<close> loop of \<^verbatim>\<open>mm_init\<close> that clears the free list pointers,
  entered at \<open>i\<close>. \<^verbatim>\<open>mm_init\<close> returns the C \<^verbatim>\<open>int\<close> 0 or -1; when \<^verbatim>\<open>mem_sbrk\<close> fails it has
  already stored \<^verbatim>\<open>(void *) -1\<close> in \<^verbatim>\<open>heap_ptr\<close>.
\<close>

definition mm_init :: "tuning \<Rightarrow> state \<Rightarrow> (int \<times> state) option" where
  "mm_init P s =
     (case mem_sbrk s ((LISTSIZE + 4) * WSIZE) of
        None \<Rightarrow> Some (- 1, s\<lparr>heap_ptr := 2 ^ 64 - 1\<rparr>)
      | Some (p, s0) \<Rightarrow>
          (let s1 = s0\<lparr>heap_ptr := p\<rparr>;
               s2 = PUT s1 (heap_ptr s1) 0;
               s3 = PUT s2 (heap_ptr s2 + (LISTSIZE + 1) * WSIZE) (PACK DSIZE 1);
               s4 = PUT s3 (heap_ptr s3 + (LISTSIZE + 2) * WSIZE) (PACK DSIZE 1);
               s5 = PUT s4 (heap_ptr s4 + (LISTSIZE + 3) * WSIZE) (PACK 0 1);
               s6 = init_lists s5 1;
               s7 = s6\<lparr>heap_ptr := heap_ptr s6 + (LISTSIZE + 2) * WSIZE\<rparr>
           in case extend_heap P s7 INITSIZE of
                None \<Rightarrow> None
              | Some (bp, s8) \<Rightarrow> if bp = 0 then Some (- 1, s8) else Some (0, s8)))"

function scan :: "state \<Rightarrow> nat \<Rightarrow> nat \<Rightarrow> nat" where
  "scan s sz index =
     (if index < LISTSIZE
      then (if GET s (freelists s index) \<noteq> 0 \<and>
               GET_SIZE s (HDRP (GET s (freelists s index))) > sz
            then GET s (freelists s index)
            else scan s sz (index + 1))
      else 0)"
  by pat_completeness auto
termination
  by (relation "measure (\<lambda>(s, sz, index). LISTSIZE - index)") auto

declare scan.simps [simp del]

text \<open>
  \<open>scan s sz index\<close> is the \<^verbatim>\<open>while (index < LISTSIZE)\<close> loop of \<^verbatim>\<open>mm_malloc\<close> entered
  at \<open>index\<close>; its value is \<^verbatim>\<open>bp\<close> after the loop (0 when no head was taken).
\<close>

definition mm_malloc :: "tuning \<Rightarrow> state \<Rightarrow> nat \<Rightarrow> (nat \<times> state) option" where
  "mm_malloc P s size0 =
     (if size0 = 0 then Some (0, s)
      else
        (let sz = align_size P size0;
             bp = scan s sz 0
         in if bp = 0
            then (case extend_heap P s (max sz CHUNKSIZE) of
                    None \<Rightarrow> None
                  | Some (bp1, s1) \<Rightarrow>
                      if bp1 = 0 then Some (0, s1) else place P s1 bp1 sz)
            else place P s bp sz))"

definition mm_free :: "tuning \<Rightarrow> state \<Rightarrow> nat \<Rightarrow> state option" where
  "mm_free P s bp =
     (let sz = GET_SIZE s (HDRP bp);
          s1 = PUT s (HDRP bp) (PACK sz 0);
          s2 = PUT s1 (FTRP s1 bp) (PACK sz 0)
      in case add_free P s2 bp sz of
           None \<Rightarrow> None
         | Some s3 \<Rightarrow> (case coalesce P s3 bp of None \<Rightarrow> None | Some (r, s4) \<Rightarrow> Some s4))"

text \<open>
  \<^verbatim>\<open>rem_size\<close> is a C \<^verbatim>\<open>int\<close>: \<open>int32\<close> is the conversion of a value to a 32-bit two's
  complement \<^verbatim>\<open>int\<close>, \<open>size_t\<close> the conversion to \<^verbatim>\<open>size_t\<close> (64 bits, unsigned).
\<close>

definition int32 :: "int \<Rightarrow> int" where
  "int32 x = (x + 2 ^ 31) mod 2 ^ 32 - 2 ^ 31"

definition size_t :: "int \<Rightarrow> nat" where
  "size_t x = nat (x mod 2 ^ 64)"

definition memcpy :: "state \<Rightarrow> nat \<Rightarrow> nat \<Rightarrow> nat \<Rightarrow> state" where
  \<comment> \<open>\<^verbatim>\<open>memcpy(dst, src, n)\<close> of the C library, on the words of a store: the words of
     \<open>[dst, dst + n)\<close> become those of \<open>[src, src + n)\<close>.\<close>
  "memcpy s dst src n =
     s\<lparr>mem := (\<lambda>a. if dst \<le> a \<and> a < dst + n then mem s (src + (a - dst)) else mem s a)\<rparr>"

datatype fault = NullWrite

text \<open>
  \<^verbatim>\<open>mm_realloc\<close> does not test the result of \<^verbatim>\<open>mm_malloc\<close> before it copies into it.
  Copying into the null pointer is undefined behaviour in C (an invalid write); the model
  stops there with the fault \<open>NullWrite\<close>.
\<close>

definition mm_realloc :: "tuning \<Rightarrow> state \<Rightarrow> nat \<Rightarrow> nat \<Rightarrow> (fault + nat \<times> state) option" where
  "mm_realloc P s bp size0 =
     (if size0 = 0 then Some (Inr (0, s))
      else
        (let sz = align_size P size0 in
         if GET_SIZE s (HDRP bp) \<ge> sz then Some (Inr (bp, s))
         else
           (let next_epi = (GET_SIZE s (HDRP (NEXT_BLKP s bp)) = 0);
                next_free = (GET_ALLOC s (HDRP (NEXT_BLKP s bp)) = 0)
            in if next_free \<or> next_epi
               then
                 (let rem_size = int32 (int (GET_SIZE s (HDRP bp))
                                        + int (GET_SIZE s (HDRP (NEXT_BLKP s bp))) - int sz)
                  in case (if rem_size < 0
                           then (case extend_heap P s (size_t (max (int CHUNKSIZE) (- rem_size))) of
                                   None \<Rightarrow> None
                                 | Some (r, s1) \<Rightarrow>
                                     if r = 0 then Some (Inl s1)
                                     else Some (Inr (s1, int32 (rem_size + max (int CHUNKSIZE) (- rem_size)))))
                           else Some (Inr (s, rem_size))) of
                       None \<Rightarrow> None
                     | Some (Inl s1) \<Rightarrow> Some (Inr (0, s1))
                     | Some (Inr (s1, rem_size1)) \<Rightarrow>
                         (let s2 = pop_free P s1 (NEXT_BLKP s1 bp);
                              s3 = PUT s2 (HDRP bp) (PACK (size_t (int sz + rem_size1)) 1);
                              s4 = PUT s3 (FTRP s3 bp) (PACK (size_t (int sz + rem_size1)) 1)
                          in Some (Inr (bp, s4))))
               else
                 (case mm_malloc P s sz of
                    None \<Rightarrow> None
                  | Some (new_bp, s1) \<Rightarrow>
                      if new_bp = 0 then Some (Inl NullWrite)
                      else (let s2 = memcpy s1 new_bp bp (GET_SIZE s1 (HDRP bp)) in
                            case mm_free P s2 bp of
                              None \<Rightarrow> None
                            | Some s3 \<Rightarrow> Some (Inr (new_bp, s3)))))))"

section \<open>Definitions for the statements\<close>

definition absorb_next :: "tuning \<Rightarrow> state \<Rightarrow> nat \<Rightarrow> nat \<Rightarrow> state" where
  \<comment> \<open>what case 1-b of \<^verbatim>\<open>mm_realloc\<close> does to the heap: the right neighbour leaves its free
     list and the block's header and footer are rewritten with the size \<open>tot\<close>\<close>
  "absorb_next P s bp tot =
     (let s2 = pop_free P s (NEXT_BLKP s bp);
          s3 = PUT s2 (HDRP bp) (PACK tot 1)
      in PUT s3 (FTRP s3 bp) (PACK tot 1))"

section \<open>Evaluating the model on concrete heaps\<close>

text \<open>
  The tuning of the examples: requests are rounded to a multiple of 8 that holds the
  payload, a header and a footer, and is at least the minimum block size; the classes are
  the powers of two from 64 bytes on; growth requests are not rounded up further.
\<close>

definition pow2_class :: "nat \<Rightarrow> nat" where
  "pow2_class sz = length (filter (\<lambda>k. 2 ^ k \<le> sz) [6 ..< 21])"

definition tuning0 :: tuning where
  "tuning0 = \<lparr>align_size = (\<lambda>n. max MINBLOCK (ALIGN (n + DSIZE))),
               class_of = pow2_class, min_chunk = 0\<rparr>"

definition blank :: "nat \<Rightarrow> state" where
  \<comment> \<open>an untouched store whose region starts at 4096 and may grow by \<open>room\<close> bytes\<close>
  "blank room = \<lparr>mem = (\<lambda>a. 0), heap_ptr = 0, mem_brk = 4096, mem_max_addr = 4096 + room\<rparr>"

definition heap0 :: state where
  \<comment> \<open>the heap after \<^verbatim>\<open>mm_init\<close>\<close>
  "heap0 = (case mm_init tuning0 (blank 100000) of Some (r, s) \<Rightarrow> s | None \<Rightarrow> blank 0)"

definition heap1 :: state where
  \<comment> \<open>the heap after \<^verbatim>\<open>mm_init\<close> and \<^verbatim>\<open>mm_malloc(100)\<close>, which returns 4256\<close>
  "heap1 = (case mm_malloc tuning0 heap0 100 of Some (p, s) \<Rightarrow> s | None \<Rightarrow> blank 0)"

definition heap2 :: state where
  \<comment> \<open>the heap after \<^verbatim>\<open>mm_init\<close> and \<^verbatim>\<open>mm_malloc(16)\<close>, which returns 4256\<close>
  "heap2 = (case mm_malloc tuning0 heap0 16 of Some (p, s) \<Rightarrow> s | None \<Rightarrow> blank 0)"

definition heap_small :: state where
  \<comment> \<open>the heap after \<^verbatim>\<open>mm_init\<close> in a region that can grow no further\<close>
  "heap_small = (case mm_init tuning0 (blank 304) of Some (r, s) \<Rightarrow> s | None \<Rightarrow> blank 0)"

definition heap_full :: state where
  \<comment> \<open>\<open>heap_small\<close> after \<^verbatim>\<open>mm_malloc(16)\<close> and \<^verbatim>\<open>mm_malloc(80)\<close>, which return 4256 and 4288\<close>
  "heap_full =
     (case mm_malloc tuning0 heap_small 16 of
        Some (p, s) \<Rightarrow> (case mm_malloc tuning0 s 80 of Some (q, s') \<Rightarrow> s' | None \<Rightarrow> blank 0)
      | None \<Rightarrow> blank 0)"

definition malloc_state :: "state \<Rightarrow> nat \<Rightarrow> state" where
  \<comment> \<open>the heap that \<^verbatim>\<open>mm_malloc(n)\<close> leaves\<close>
  "malloc_state s n = (case mm_malloc tuning0 s n of Some (p, s') \<Rightarrow> s' | None \<Rightarrow> blank 0)"

definition free_state :: "state \<Rightarrow> nat \<Rightarrow> state" where
  \<comment> \<open>the heap that \<^verbatim>\<open>mm_free(bp)\<close> leaves\<close>
  "free_state s bp = (case mm_free tuning0 s bp of Some s' \<Rightarrow> s' | None \<Rightarrow> blank 0)"

definition realloc_state :: "state \<Rightarrow> nat \<Rightarrow> nat \<Rightarrow> state" where
  \<comment> \<open>the heap that \<^verbatim>\<open>mm_realloc(bp, n)\<close> leaves\<close>
  "realloc_state s bp n =
     (case mm_realloc tuning0 s bp n of Some (Inr (p, s')) \<Rightarrow> s' | _ \<Rightarrow> blank 0)"

text \<open>
  Two call sequences on \<open>heap0\<close>. In both, a block is resized while its right neighbour
  is a free block that is not the last block of the heap.
\<close>

definition a1 :: state where "a1 = malloc_state heap0 4176"
definition a2 :: state where "a2 = malloc_state a1 16"
definition a3 :: state where "a3 = malloc_state a2 16"
definition a4 :: state where "a4 = malloc_state a3 48"
definition a5 :: state where "a5 = malloc_state a4 4008"
definition a6 :: state where "a6 = free_state a5 8480"
definition a7 :: state where "a7 = free_state a6 4256"
definition a8 :: state where "a8 = realloc_state a7 8448 100"

definition b2 :: state where "b2 = malloc_state heap2 16"
definition b3 :: state where "b3 = malloc_state b2 4096"
definition b4 :: state where "b4 = malloc_state b3 48"
definition b5 :: state where "b5 = free_state b4 4320"
definition b6 :: state where "b6 = free_state b5 8432"
definition b7 :: state where "b7 = malloc_state b6 4160"
definition b8 :: state where "b8 = free_state b7 4288"
definition b9 :: state where "b9 = realloc_state b8 4256 100"

function heap_walk :: "state \<Rightarrow> nat \<Rightarrow> nat list" where
  "heap_walk s bp =
     (if GET_SIZE s (HDRP bp) = 0 \<or> mem_brk s \<le> bp then [bp]
      else bp # heap_walk s (NEXT_BLKP s bp))"
  by pat_completeness auto
termination
  by (relation "measure (\<lambda>(s, bp). mem_brk s - bp)")
     (auto simp: NEXT_BLKP_def HDRP_def)

declare heap_walk.simps [simp del]

text \<open>
  \<open>heap_walk s bp\<close> is the walk over the region as an implicit list that the allocator's
  header layout defines (\<^verbatim>\<open>NEXT_BLKP\<close> from block to block, up to a header of size 0): the
  block pointers from \<open>bp\<close> to the epilogue.
\<close>

lemma Let_state:
  "Let \<lparr>mem = m, heap_ptr = h, mem_brk = b, mem_max_addr = x\<rparr> f =
   f \<lparr>mem = m, heap_ptr = h, mem_brk = b, mem_max_addr = x\<rparr>"
  by simp

lemma Let_value:
  "Let (numeral n) f = f (numeral n)" "Let 0 g = g 0" "Let 1 h = h 1"
  "Let (Suc 0) f0 = f0 (Suc 0)" "Let (- numeral n) k = k (- numeral n)"
  "Let True f1 = f1 True" "Let False f2 = f2 False"
  by simp_all

lemmas macro_defs =
  GET_def PUT_def PACK_def GET_SIZE_def GET_ALLOC_def HDRP_def FTRP_def NEXT_BLKP_def
  PREV_BLKP_def PRED_BLKP_def SUCC_BLKP_def freelists_def ALIGN_def ALIGNMENT_def WSIZE_def
  DSIZE_def CHUNKSIZE_def INITSIZE_def LISTSIZE_def MINBLOCK_def

lemmas mm_eval =
  macro_defs mem_sbrk_def pop_free_def find_pos.simps add_free_def merge_blocks_def
  coalesce_def extend_heap_def place_def init_lists.simps mm_init_def scan.simps
  mm_malloc_def mm_free_def int32_def size_t_def memcpy_def mm_realloc_def
  pow2_class_def tuning0_def blank_def malloc_state_def free_state_def
  realloc_state_def Let_state Let_value

lemma heap0_eq:
  "heap0 =
   \<lparr>mem = (\<lambda>a. 0)
      (4096 := 0, 4232 := 17, 4240 := 17, 4104 := 0, 4112 := 0, 4128 := 0,
       4136 := 0, 4144 := 0, 4152 := 0, 4160 := 0, 4168 := 0, 4176 := 0,
       4184 := 0, 4192 := 0, 4200 := 0, 4208 := 0, 4216 := 0, 4224 := 0,
       4248 := 144, 4384 := 144, 4392 := Suc 0, 4256 := 0, 4264 := 0,
       4120 := 4256),
    heap_ptr = 4240, mem_brk = 4400, mem_max_addr = 104096\<rparr>"
  supply TrueI [simproc del: let_simp]
  by (simp add: heap0_def mm_eval
      cong: let_weak_cong prod.case_cong_weak sum.case_cong_weak split del: if_split)

lemma heap0_init: "mm_init tuning0 (blank 100000) = Some (0, heap0)"
  supply TrueI [simproc del: let_simp]
  by (simp add: heap0_eq, simp add: mm_eval
      cong: let_weak_cong prod.case_cong_weak sum.case_cong_weak split del: if_split)

lemma heap1_eq:
  "heap1 =
   \<lparr>mem = (\<lambda>a. 0)
      (4096 := 0, 4232 := 17, 4240 := 17, 4104 := 0, 4112 := 0, 4128 := 0,
       4136 := 0, 4144 := 0, 4152 := 0, 4160 := 0, 4168 := 0, 4176 := 0,
       4184 := 0, 4192 := 0, 4200 := 0, 4208 := 0, 4216 := 0, 4224 := 0,
       4392 := Suc 0, 4256 := 0, 4264 := 0, 4120 := 0, 4248 := 145,
       4384 := 145),
    heap_ptr = 4240, mem_brk = 4400, mem_max_addr = 104096\<rparr>"
  supply TrueI [simproc del: let_simp]
  by (simp add: heap1_def heap0_eq, simp add: mm_eval
      cong: let_weak_cong prod.case_cong_weak sum.case_cong_weak split del: if_split)

lemma heap1_malloc: "mm_malloc tuning0 heap0 100 = Some (4256, heap1)"
  supply TrueI [simproc del: let_simp]
  by (simp add: heap1_eq heap0_eq, simp add: mm_eval
      cong: let_weak_cong prod.case_cong_weak sum.case_cong_weak split del: if_split)

lemma heap2_eq:
  "heap2 =
   \<lparr>mem =
       (\<lambda>a. 0)
       (4096 := 0, 4232 := 17, 4240 := 17, 4104 := 0, 4128 := 0, 4136 := 0,
          4144 := 0, 4152 := 0, 4160 := 0, 4168 := 0, 4176 := 0, 4184 := 0,
          4192 := 0, 4200 := 0, 4208 := 0, 4216 := 0, 4224 := 0,
          4392 := Suc 0, 4256 := 0, 4264 := 0, 4120 := 0, 4248 := 33,
          4272 := 33, 4280 := 112, 4384 := 112, 4288 := 0, 4296 := 0,
          4112 := 4288),
       heap_ptr = 4240, mem_brk = 4400, mem_max_addr = 104096\<rparr>"
  supply TrueI [simproc del: let_simp]
  by (simp add: heap2_def heap0_eq mm_eval
      cong: let_weak_cong prod.case_cong_weak sum.case_cong_weak split del: if_split)

lemma heap_small_eq:
  "heap_small =
   \<lparr>mem = (\<lambda>a. 0)
      (4096 := 0, 4232 := 17, 4240 := 17, 4104 := 0, 4112 := 0, 4128 := 0,
       4136 := 0, 4144 := 0, 4152 := 0, 4160 := 0, 4168 := 0, 4176 := 0,
       4184 := 0, 4192 := 0, 4200 := 0, 4208 := 0, 4216 := 0, 4224 := 0,
       4248 := 144, 4384 := 144, 4392 := Suc 0, 4256 := 0, 4264 := 0,
       4120 := 4256),
    heap_ptr = 4240, mem_brk = 4400, mem_max_addr = 4400\<rparr>"
  supply TrueI [simproc del: let_simp]
  by (simp add: heap_small_def mm_eval
      cong: let_weak_cong prod.case_cong_weak sum.case_cong_weak split del: if_split)

lemma heap_full_eq:
  "heap_full =
   \<lparr>mem =
       (\<lambda>a. 0)
       (4096 := 0, 4232 := 17, 4240 := 17, 4104 := 0, 4128 := 0, 4136 := 0,
          4144 := 0, 4152 := 0, 4160 := 0, 4168 := 0, 4176 := 0, 4184 := 0,
          4192 := 0, 4200 := 0, 4208 := 0, 4216 := 0, 4224 := 0,
          4392 := Suc 0, 4256 := 0, 4264 := 0, 4120 := 0, 4248 := 33,
          4272 := 33, 4288 := 0, 4296 := 0, 4112 := 0, 4280 := 113,
          4384 := 113),
       heap_ptr = 4240, mem_brk = 4400, mem_max_addr = 4400\<rparr>"
  supply TrueI [simproc del: let_simp]
  by (simp add: heap_full_def heap_small_eq mm_eval
      cong: let_weak_cong prod.case_cong_weak sum.case_cong_weak split del: if_split)

section \<open>Zero-size resize\<close>

text \<open>
  C3, as the code has it: \<^verbatim>\<open>mm_realloc(bp, 0)\<close> returns \<^verbatim>\<open>NULL\<close> at once; it does not
  release the block, and the heap is exactly what it was.
\<close>

theorem mm_realloc_zero_returns_null_unchanged:
  "mm_realloc P s bp 0 = Some (Inr (0, s))"
  by (simp add: mm_realloc_def)

text \<open>
  C3 as stated fails: in \<open>heap1\<close> the block at 4256 is allocated; \<^verbatim>\<open>mm_realloc(4256, 0)\<close>
  returns \<^verbatim>\<open>NULL\<close> and leaves it allocated and in no free list, where \<^verbatim>\<open>mm_free(4256)\<close>
  marks it free and makes it the head of its class.
\<close>

theorem mm_realloc_zero_is_not_release:
  "GET_ALLOC heap1 (HDRP 4256) = 1 \<and>
   (case mm_realloc tuning0 heap1 4256 0 of
      Some (Inr (r, s)) \<Rightarrow>
        r = 0 \<and> GET_ALLOC s (HDRP 4256) = 1 \<and> GET s (freelists s (pow2_class 144)) = 0
    | _ \<Rightarrow> False) \<and>
   (case mm_free tuning0 heap1 4256 of
      Some s \<Rightarrow> GET_ALLOC s (HDRP 4256) = 0 \<and> GET s (freelists s (pow2_class 144)) = 4256
    | None \<Rightarrow> False)"
  supply TrueI [simproc del: let_simp]
  by (simp add: heap1_eq, simp add: mm_eval
      cong: let_weak_cong prod.case_cong_weak sum.case_cong_weak split del: if_split)

section \<open>Resize within the current capacity\<close>

text \<open>
  C6, as the code has it: for a nonzero new size whose rounded size is at most the size
  in the block's header, \<^verbatim>\<open>mm_realloc\<close> returns the same address and the heap is exactly
  what it was: nothing is split, no header, footer, list or payload word is written.
\<close>

theorem mm_realloc_within_capacity:
  assumes "size0 \<noteq> 0" and "align_size P size0 \<le> GET_SIZE s (HDRP bp)"
  shows "mm_realloc P s bp size0 = Some (Inr (bp, s))"
  using assms by (simp add: mm_realloc_def)

theorem mm_realloc_within_capacity_witness:
  "(50 :: nat) \<noteq> 0 \<and> align_size tuning0 50 = 72 \<and> GET_SIZE heap1 (HDRP 4256) = 144 \<and>
   GET_ALLOC heap1 (HDRP 4256) = 1 \<and>
   mm_realloc tuning0 heap1 4256 50 = Some (Inr (4256, heap1))"
proof -
  have a: "align_size tuning0 50 = 72"
    by (simp add: tuning0_def macro_defs)
  have b: "GET_SIZE heap1 (HDRP 4256) = 144" "GET_ALLOC heap1 (HDRP 4256) = 1"
    by (simp_all add: heap1_eq macro_defs)
  have "mm_realloc tuning0 heap1 4256 50 = Some (Inr (4256, heap1))"
    by (rule mm_realloc_within_capacity) (simp_all add: a b)
  with a b show ?thesis by simp
qed

text \<open>
  C6 as stated fails at the new size 0: its rounded size (32) is within the capacity of
  the block at 4256 (144), yet the result is \<^verbatim>\<open>NULL\<close> and not 4256.
\<close>

theorem mm_realloc_within_capacity_fails_at_zero:
  "align_size tuning0 0 \<le> GET_SIZE heap1 (HDRP 4256) \<and> GET_ALLOC heap1 (HDRP 4256) = 1 \<and>
   mm_realloc tuning0 heap1 4256 0 \<noteq> Some (Inr (4256, heap1))"
  by (simp add: mm_realloc_def heap1_eq tuning0_def macro_defs)

section \<open>The directory scan of mm_malloc\<close>

lemma scan_cases:
  "(scan s sz i \<noteq> 0 \<and>
      (\<exists>j. i \<le> j \<and> j < LISTSIZE \<and> scan s sz i = GET s (freelists s j) \<and>
           sz < GET_SIZE s (HDRP (GET s (freelists s j))) \<and>
           (\<forall>k. i \<le> k \<and> k < j \<longrightarrow>
                GET s (freelists s k) = 0 \<or> GET_SIZE s (HDRP (GET s (freelists s k))) \<le> sz))) \<or>
   (scan s sz i = 0 \<and>
      (\<forall>k. i \<le> k \<and> k < LISTSIZE \<longrightarrow>
           GET s (freelists s k) = 0 \<or> GET_SIZE s (HDRP (GET s (freelists s k))) \<le> sz))"
proof (induction s sz i rule: scan.induct)
  case (1 s sz index)
  show ?case
  proof (cases "index < LISTSIZE")
    case False
    then show ?thesis by (simp add: scan.simps)
  next
    case in_range: True
    show ?thesis
    proof (cases "GET s (freelists s index) \<noteq> 0 \<and>
                  GET_SIZE s (HDRP (GET s (freelists s index))) > sz")
      case True
      with in_range have "scan s sz index = GET s (freelists s index)"
        by (simp add: scan.simps)
      with True in_range show ?thesis by auto
    next
      case False
      with in_range have step: "scan s sz index = scan s sz (index + 1)"
        by (subst scan.simps) auto
      have skip: "GET s (freelists s index) = 0 \<or>
                  GET_SIZE s (HDRP (GET s (freelists s index))) \<le> sz"
        using False by auto
      from "1.IH" [OF in_range False] show ?thesis
      proof (elim disjE conjE exE)
        fix j
        assume "scan s sz (index + 1) \<noteq> 0" "index + 1 \<le> j" "j < LISTSIZE"
          "scan s sz (index + 1) = GET s (freelists s j)"
          "sz < GET_SIZE s (HDRP (GET s (freelists s j)))"
          "\<forall>k. index + 1 \<le> k \<and> k < j \<longrightarrow>
             GET s (freelists s k) = 0 \<or> GET_SIZE s (HDRP (GET s (freelists s k))) \<le> sz"
        moreover have "k = index \<or> index + 1 \<le> k" if "index \<le> k" for k
          using that by auto
        ultimately show ?thesis
          unfolding step using skip by (intro disjI1) (auto intro!: exI [of _ j])
      next
        assume "scan s sz (index + 1) = 0"
          "\<forall>k. index + 1 \<le> k \<and> k < LISTSIZE \<longrightarrow>
             GET s (freelists s k) = 0 \<or> GET_SIZE s (HDRP (GET s (freelists s k))) \<le> sz"
        moreover have "k = index \<or> index + 1 \<le> k" if "index \<le> k" for k
          using that by auto
        ultimately show ?thesis
          unfolding step using skip by (intro disjI2) auto
      qed
    qed
  qed
qed

lemma scan_none:
  assumes "\<forall>i<LISTSIZE. GET s (freelists s i) = 0 \<or>
             GET_SIZE s (HDRP (GET s (freelists s i))) \<le> sz"
  shows "scan s sz 0 = 0"
proof (rule ccontr)
  assume "scan s sz 0 \<noteq> 0"
  with scan_cases [of s sz 0] obtain j where "j < LISTSIZE"
    "scan s sz 0 = GET s (freelists s j)" "sz < GET_SIZE s (HDRP (GET s (freelists s j)))"
    by auto
  moreover from assms \<open>j < LISTSIZE\<close> have "GET s (freelists s j) = 0 \<or>
      GET_SIZE s (HDRP (GET s (freelists s j))) \<le> sz"
    by blast
  ultimately show False using \<open>scan s sz 0 \<noteq> 0\<close> by auto
qed

lemma all_below_LISTSIZE:
  "(\<forall>i<LISTSIZE. Q i) =
   (Q 0 \<and> Q 1 \<and> Q 2 \<and> Q 3 \<and> Q 4 \<and> Q 5 \<and> Q 6 \<and> Q 7 \<and> Q 8 \<and> Q 9 \<and> Q 10 \<and> Q 11 \<and>
    Q 12 \<and> Q 13 \<and> Q 14 \<and> Q 15)"
  by (simp add: LISTSIZE_def numeral_eq_Suc All_less_Suc conj_ac)

text \<open>
  C5: the scan goes through the classes in ascending index order and takes the first
  list head that is not empty and whose size is strictly greater than \<open>need\<close>; the lower
  classes were skipped because their head was empty or not larger than \<open>need\<close>. When
  every head is empty or of size at most \<open>need\<close> (equal to it included), no head is taken
  and \<^verbatim>\<open>mm_malloc\<close> goes on with \<^verbatim>\<open>extend_heap(MAX(need, CHUNKSIZE))\<close>.
\<close>

theorem mm_malloc_scan_strictly_larger:
  "(scan s need 0 \<noteq> 0 \<longrightarrow>
      (\<exists>i<LISTSIZE. scan s need 0 = GET s (freelists s i) \<and>
          need < GET_SIZE s (HDRP (GET s (freelists s i))) \<and>
          (\<forall>j<i. GET s (freelists s j) = 0 \<or>
                  GET_SIZE s (HDRP (GET s (freelists s j))) \<le> need)) \<and>
      (\<forall>size0. size0 \<noteq> 0 \<and> align_size P size0 = need \<longrightarrow>
          mm_malloc P s size0 = place P s (scan s need 0) need)) \<and>
   ((\<forall>i<LISTSIZE. GET s (freelists s i) = 0 \<or>
          GET_SIZE s (HDRP (GET s (freelists s i))) \<le> need) \<longrightarrow>
      scan s need 0 = 0 \<and>
      (\<forall>size0. size0 \<noteq> 0 \<and> align_size P size0 = need \<longrightarrow>
          mm_malloc P s size0 =
            (case extend_heap P s (max need CHUNKSIZE) of
               None \<Rightarrow> None
             | Some (bp1, s1) \<Rightarrow> if bp1 = 0 then Some (0, s1) else place P s1 bp1 need)))"
proof (intro conjI impI allI)
  assume found: "scan s need 0 \<noteq> 0"
  with scan_cases [of s need 0] obtain j where j: "j < LISTSIZE"
    "scan s need 0 = GET s (freelists s j)"
    "need < GET_SIZE s (HDRP (GET s (freelists s j)))"
    "\<forall>k. k < j \<longrightarrow>
       GET s (freelists s k) = 0 \<or> GET_SIZE s (HDRP (GET s (freelists s k))) \<le> need"
    by auto
  then show "\<exists>i<LISTSIZE. scan s need 0 = GET s (freelists s i) \<and>
          need < GET_SIZE s (HDRP (GET s (freelists s i))) \<and>
          (\<forall>j<i. GET s (freelists s j) = 0 \<or>
                  GET_SIZE s (HDRP (GET s (freelists s j))) \<le> need)"
    by (intro exI [of _ j]) simp
  fix size0
  assume "size0 \<noteq> 0 \<and> align_size P size0 = need"
  with found show "mm_malloc P s size0 = place P s (scan s need 0) need"
    by (simp add: mm_malloc_def Let_def)
next
  assume none: "\<forall>i<LISTSIZE. GET s (freelists s i) = 0 \<or>
          GET_SIZE s (HDRP (GET s (freelists s i))) \<le> need"
  then show z: "scan s need 0 = 0" by (rule scan_none)
  fix size0
  assume "size0 \<noteq> 0 \<and> align_size P size0 = need"
  with z show "mm_malloc P s size0 =
            (case extend_heap P s (max need CHUNKSIZE) of
               None \<Rightarrow> None
             | Some (bp1, s1) \<Rightarrow> if bp1 = 0 then Some (0, s1) else place P s1 bp1 need)"
    by (simp add: mm_malloc_def Let_def)
qed

text \<open>
  In \<open>heap0\<close> the only free block is the head of class 2, of size 144. A request that
  rounds to 136 takes it; a request that rounds to exactly 144 does not, and the region
  grows (the break moves from 4400 to 8512).
\<close>

theorem mm_malloc_scan_strictly_larger_witness:
  "GET heap0 (freelists heap0 2) = 4256 \<and> GET_SIZE heap0 (HDRP 4256) = 144 \<and>
   align_size tuning0 120 = 136 \<and> scan heap0 136 0 = 4256 \<and>
   mm_malloc tuning0 heap0 120 = place tuning0 heap0 4256 136 \<and>
   align_size tuning0 128 = 144 \<and> scan heap0 144 0 = 0 \<and>
   (case mm_malloc tuning0 heap0 128 of
      Some (p, s) \<Rightarrow> p = 4256 \<and> mem_brk heap0 = 4400 \<and> mem_brk s = 8512
    | None \<Rightarrow> False)"
proof -
  have heads: "\<forall>i<LISTSIZE. GET heap0 (freelists heap0 i) = 0 \<or>
      GET_SIZE heap0 (HDRP (GET heap0 (freelists heap0 i))) \<le> 144"
    unfolding all_below_LISTSIZE by (simp add: heap0_eq macro_defs)
  have a: "align_size tuning0 120 = 136" "align_size tuning0 128 = 144"
    by (simp_all add: tuning0_def macro_defs)
  have h: "GET heap0 (freelists heap0 2) = 4256" "GET_SIZE heap0 (HDRP 4256) = 144"
    by (simp_all add: heap0_eq macro_defs)
  have taken: "scan heap0 136 0 = 4256"
    by (simp add: heap0_eq scan.simps macro_defs split del: if_split)
  note thm1 = mm_malloc_scan_strictly_larger [of heap0 136 tuning0]
  note thm2 = mm_malloc_scan_strictly_larger [of heap0 144 tuning0]
  from thm1 taken a have m1: "mm_malloc tuning0 heap0 120 = place tuning0 heap0 4256 136"
    by simp
  from thm2 heads have z: "scan heap0 144 0 = 0" by blast
  have grown: "(case mm_malloc tuning0 heap0 128 of
      Some (p, s) \<Rightarrow> p = 4256 \<and> mem_brk heap0 = 4400 \<and> mem_brk s = 8512
    | None \<Rightarrow> False)"
    supply TrueI [simproc del: let_simp]
    by (simp add: heap0_eq mm_eval
        cong: let_weak_cong prod.case_cong_weak sum.case_cong_weak split del: if_split)
  from h a taken m1 z grown show ?thesis by simp
qed

section \<open>Allocation when the region cannot grow\<close>

lemma extend_heap_fails:
  assumes "mem_sbrk s (max (ALIGN n) (min_chunk P)) = None"
  shows "extend_heap P s n = Some (0, s)"
  using assms by (simp add: extend_heap_def Let_def)

text \<open>
  C8: for a nonzero request, when no class head is usable and the region-growth primitive
  refuses the request of \<^verbatim>\<open>extend_heap(MAX(need, CHUNKSIZE))\<close>, \<^verbatim>\<open>mm_malloc\<close> returns \<^verbatim>\<open>NULL\<close> and
  the state (store, \<^verbatim>\<open>heap_ptr\<close>, break) is what it was.
\<close>

theorem mm_malloc_out_of_memory:
  assumes "size0 \<noteq> 0"
    and "\<forall>i<LISTSIZE. GET s (freelists s i) = 0 \<or>
           GET_SIZE s (HDRP (GET s (freelists s i))) \<le> align_size P size0"
    and "mem_sbrk s (max (ALIGN (max (align_size P size0) CHUNKSIZE)) (min_chunk P)) = None"
  shows "mm_malloc P s size0 = Some (0, s)"
proof -
  have "scan s (align_size P size0) 0 = 0"
    using assms(2) by (rule scan_none)
  moreover have "extend_heap P s (max (align_size P size0) CHUNKSIZE) = Some (0, s)"
    using assms(3) by (rule extend_heap_fails)
  ultimately show ?thesis
    using assms(1) by (simp add: mm_malloc_def Let_def)
qed

text \<open>
  In \<open>heap_small\<close> the only free block has size 144 and the region is at its limit: a
  request of 200 bytes (rounded to 216) finds no head and cannot grow.
\<close>

theorem mm_malloc_out_of_memory_witness:
  "(200 :: nat) \<noteq> 0 \<and> align_size tuning0 200 = 216 \<and>
   mem_sbrk heap_small (max (ALIGN (max 216 CHUNKSIZE)) (min_chunk tuning0)) = None \<and>
   mm_malloc tuning0 heap_small 200 = Some (0, heap_small)"
proof -
  have a: "align_size tuning0 200 = 216"
    by (simp add: tuning0_def macro_defs)
  have heads: "\<forall>i<LISTSIZE. GET heap_small (freelists heap_small i) = 0 \<or>
      GET_SIZE heap_small (HDRP (GET heap_small (freelists heap_small i))) \<le> align_size tuning0 200"
    unfolding all_below_LISTSIZE a by (simp add: heap_small_eq macro_defs)
  have full: "mem_sbrk heap_small
      (max (ALIGN (max (align_size tuning0 200) CHUNKSIZE)) (min_chunk tuning0)) = None"
    unfolding a by (simp add: heap_small_eq mem_sbrk_def tuning0_def macro_defs)
  have "mm_malloc tuning0 heap_small 200 = Some (0, heap_small)"
    by (rule mm_malloc_out_of_memory [OF _ heads full]) simp
  with a full show ?thesis by simp
qed

section \<open>Resize beyond the current capacity\<close>

lemma int32_id: "- (2 ^ 31) \<le> x \<Longrightarrow> x < 2 ^ 31 \<Longrightarrow> int32 x = x"
  by (simp add: int32_def)

lemma size_t_id: "0 \<le> x \<Longrightarrow> x < 2 ^ 64 \<Longrightarrow> size_t x = nat x"
  by (simp add: size_t_def)

lemma PACK_0: "PACK x 0 = x"
  by (simp add: PACK_def)

lemma PACK_1: "even x \<Longrightarrow> PACK x 1 = x + 1"
  using or_one_eq [of x] by (simp add: PACK_def)

lemma GET_SIZE_mult8: "8 dvd GET_SIZE s p"
  by (simp add: GET_SIZE_def GET_def dvd_minus_mod)

lemma mm_realloc_case1:
  fixes P s bp size0
  defines "cur \<equiv> GET_SIZE s (HDRP bp)"
    and "nxt \<equiv> GET_SIZE s (HDRP (NEXT_BLKP s bp))"
    and "need \<equiv> align_size P size0"
  assumes "size0 \<noteq> 0"
    and "cur < need"
    and "GET_ALLOC s (HDRP (NEXT_BLKP s bp)) = 0 \<or> nxt = 0"
    and "need < 2 ^ 31"
    and "cur + nxt < 2 ^ 31"
  shows "mm_realloc P s bp size0 =
     (if need \<le> cur + nxt
      then Some (Inr (bp, absorb_next P s bp (cur + nxt)))
      else (case extend_heap P s (max CHUNKSIZE (need - (cur + nxt))) of
              None \<Rightarrow> None
            | Some (r, s1) \<Rightarrow>
                if r = 0 then Some (Inr (0, s1))
                else Some (Inr (bp, absorb_next P s1 bp
                                 (cur + nxt + max CHUNKSIZE (need - (cur + nxt)))))))"
proof -
  define rem0 where "rem0 = int cur + int nxt - int need"
  have r0: "int32 rem0 = rem0"
    using assms(7,8) unfolding rem0_def
    by (intro int32_id) auto
  show ?thesis
  proof (cases "need \<le> cur + nxt")
    case True
    then have "0 \<le> rem0" by (simp add: rem0_def)
    moreover have "size_t (int need + rem0) = cur + nxt"
      using assms(8) by (simp add: rem0_def size_t_def)
    ultimately show ?thesis
      using assms(4,5,6) True r0
      by (simp add: mm_realloc_def Let_def absorb_next_def
          cur_def [symmetric] nxt_def [symmetric] need_def [symmetric] rem0_def [symmetric])
  next
    case False
    then have neg: "rem0 < 0" by (simp add: rem0_def)
    have ext: "max (int CHUNKSIZE) (- rem0) = int (max CHUNKSIZE (need - (cur + nxt)))"
      using False unfolding rem0_def max_def by (simp split: if_splits) arith
    have e1: "size_t (max (int CHUNKSIZE) (- rem0)) = max CHUNKSIZE (need - (cur + nxt))"
      unfolding ext using assms(7) by (simp add: size_t_def CHUNKSIZE_def DSIZE_def WSIZE_def)
    have e2: "int32 (rem0 + max (int CHUNKSIZE) (- rem0)) = rem0 + max (int CHUNKSIZE) (- rem0)"
      using assms(7,8) False
      by (intro int32_id) (auto simp: rem0_def CHUNKSIZE_def DSIZE_def WSIZE_def max_def)
    have e3: "size_t (int need + (rem0 + max (int CHUNKSIZE) (- rem0))) =
        cur + nxt + max CHUNKSIZE (need - (cur + nxt))"
      unfolding ext using assms(7,8) False
      by (simp add: rem0_def size_t_def CHUNKSIZE_def DSIZE_def WSIZE_def max_def)
    show ?thesis
      using assms(4,5,6) False r0 neg e1 e2 e3
      by (simp add: mm_realloc_def Let_def absorb_next_def
          cur_def [symmetric] nxt_def [symmetric] need_def [symmetric] rem0_def [symmetric]
          split: option.splits)
  qed
qed

lemma GET_PUT: "GET (PUT s p v) q = (if q = p then v else GET s q)"
  by (simp add: GET_def PUT_def)

lemma PUT_fields [simp]:
  "mem_brk (PUT s p v) = mem_brk s" "heap_ptr (PUT s p v) = heap_ptr s"
  "mem_max_addr (PUT s p v) = mem_max_addr s"
  by (simp_all add: PUT_def)

lemma pop_free_fields [simp]:
  "mem_brk (pop_free P s p) = mem_brk s" "heap_ptr (pop_free P s p) = heap_ptr s"
  "mem_max_addr (pop_free P s p) = mem_max_addr s"
  by (simp_all add: pop_free_def Let_def)





lemma absorb_next_fields [simp]:
  "mem_brk (absorb_next P s bp tot) = mem_brk s"
  by (simp add: absorb_next_def Let_def)

lemma absorb_next_header: "GET (absorb_next P s bp tot) (HDRP bp) = PACK tot 1"
  by (simp add: absorb_next_def Let_def GET_PUT)

lemma absorb_next_size:
  assumes "8 dvd tot"
  shows "GET_SIZE (absorb_next P s bp tot) (HDRP bp) = tot"
    and "GET_ALLOC (absorb_next P s bp tot) (HDRP bp) = 1"
proof -
  from assms obtain k where k: "tot = 8 * k" by (auto simp: dvd_def)
  then have "even tot" by simp
  then have p: "PACK tot 1 = tot + 1" by (rule PACK_1)
  have m: "(tot + 1) mod 8 = 1" by (simp add: k)
  show "GET_SIZE (absorb_next P s bp tot) (HDRP bp) = tot"
    unfolding GET_SIZE_def absorb_next_header p m by simp
  show "GET_ALLOC (absorb_next P s bp tot) (HDRP bp) = 1"
    unfolding GET_ALLOC_def absorb_next_header p using \<open>even tot\<close> by (simp add: mod2_eq_if)
qed


text \<open>
  The number that case 1-b writes into the header, for sizes below \<open>2 ^ 31\<close> (\<^verbatim>\<open>rem_size\<close>
  is an \<^verbatim>\<open>int\<close>): the old size plus the size of the right neighbour and, where the heap
  was extended, plus the extension request \<^verbatim>\<open>MAX(CHUNKSIZE, -rem_size)\<close>. This is a fact
  about the header word only; it does not say that the bytes the header now counts lie
  behind the block.
\<close>

lemma mm_realloc_in_place_header:
  fixes P s bp size0
  defines "cur \<equiv> GET_SIZE s (HDRP bp)"
    and "nxt \<equiv> GET_SIZE s (HDRP (NEXT_BLKP s bp))"
    and "need \<equiv> align_size P size0"
  assumes "size0 \<noteq> 0"
    and "cur < need"
    and "GET_ALLOC s (HDRP (NEXT_BLKP s bp)) = 0 \<or> nxt = 0"
    and "ALIGNMENT dvd need"
    and "need < 2 ^ 31"
    and "cur + nxt < 2 ^ 31"
  shows "(need \<le> cur + nxt \<longrightarrow>
            mm_realloc P s bp size0 = Some (Inr (bp, absorb_next P s bp (cur + nxt))) \<and>
            GET_SIZE (absorb_next P s bp (cur + nxt)) (HDRP bp) = cur + nxt \<and>
            GET_ALLOC (absorb_next P s bp (cur + nxt)) (HDRP bp) = 1) \<and>
         (cur + nxt < need \<longrightarrow>
            (\<forall>r s1. extend_heap P s (max CHUNKSIZE (need - (cur + nxt))) = Some (r, s1) \<and> r \<noteq> 0 \<longrightarrow>
               mm_realloc P s bp size0 =
                 Some (Inr (bp, absorb_next P s1 bp
                                  (cur + nxt + max CHUNKSIZE (need - (cur + nxt))))) \<and>
               GET_SIZE (absorb_next P s1 bp (cur + nxt + max CHUNKSIZE (need - (cur + nxt))))
                 (HDRP bp) = cur + nxt + max CHUNKSIZE (need - (cur + nxt)) \<and>
               GET_ALLOC (absorb_next P s1 bp (cur + nxt + max CHUNKSIZE (need - (cur + nxt))))
                 (HDRP bp) = 1 \<and>
               cur + nxt + CHUNKSIZE \<le> cur + nxt + max CHUNKSIZE (need - (cur + nxt))))"
proof -
  note c1 = mm_realloc_case1 [of size0 s bp P, folded cur_def nxt_def need_def,
      OF assms(4,5,6,8,9)]
  have d1: "8 dvd cur + nxt"
    unfolding cur_def nxt_def by (intro dvd_add GET_SIZE_mult8)
  have d2: "8 dvd cur + nxt + max CHUNKSIZE (need - (cur + nxt))" if "cur + nxt < need"
  proof (cases "CHUNKSIZE \<le> need - (cur + nxt)")
    case True
    then have "cur + nxt + max CHUNKSIZE (need - (cur + nxt)) = need"
      using that by (simp add: max_def)
    then show ?thesis using assms(7) by (simp add: ALIGNMENT_def)
  next
    case False
    then have "max CHUNKSIZE (need - (cur + nxt)) = 4112"
      by (simp add: max_def CHUNKSIZE_def DSIZE_def WSIZE_def)
    then show ?thesis using d1 by simp
  qed
  show ?thesis
  proof (intro conjI impI allI)
    assume "need \<le> cur + nxt"
    then show "mm_realloc P s bp size0 = Some (Inr (bp, absorb_next P s bp (cur + nxt)))"
      using c1 by simp
  next
    show "GET_SIZE (absorb_next P s bp (cur + nxt)) (HDRP bp) = cur + nxt"
      "GET_ALLOC (absorb_next P s bp (cur + nxt)) (HDRP bp) = 1"
      using d1 by (rule absorb_next_size)+
  next
    fix r s1
    assume short: "cur + nxt < need"
      and ext: "extend_heap P s (max CHUNKSIZE (need - (cur + nxt))) = Some (r, s1) \<and> r \<noteq> 0"
    then show "mm_realloc P s bp size0 =
        Some (Inr (bp, absorb_next P s1 bp (cur + nxt + max CHUNKSIZE (need - (cur + nxt)))))"
      using c1 by simp
    show "GET_SIZE (absorb_next P s1 bp (cur + nxt + max CHUNKSIZE (need - (cur + nxt))))
        (HDRP bp) = cur + nxt + max CHUNKSIZE (need - (cur + nxt))"
      "GET_ALLOC (absorb_next P s1 bp (cur + nxt + max CHUNKSIZE (need - (cur + nxt))))
        (HDRP bp) = 1"
      using d2 [OF short] by (rule absorb_next_size)+
    show "cur + nxt + CHUNKSIZE \<le> cur + nxt + max CHUNKSIZE (need - (cur + nxt))"
      by simp
  qed
qed

text \<open>
  In \<open>heap2\<close> the block at 4256 has size 32 and its right neighbour is the free block of
  size 112 before the epilogue. Resizing to 100 bytes (rounded to 120) absorbs the whole
  neighbour: the block gets all 144 bytes. Resizing to 1000 bytes (rounded to 1016)
  extends the heap by \<^verbatim>\<open>CHUNKSIZE\<close> and the block gets all of 32 + 112 + 4112 = 4256 bytes.
\<close>

lemma mm_realloc_in_place_header_example:
  "GET_SIZE heap2 (HDRP 4256) = 32 \<and> GET_SIZE heap2 (HDRP (NEXT_BLKP heap2 4256)) = 112 \<and>
   GET_ALLOC heap2 (HDRP (NEXT_BLKP heap2 4256)) = 0 \<and>
   align_size tuning0 100 = 120 \<and> align_size tuning0 1000 = 1016 \<and>
   mm_realloc tuning0 heap2 4256 100 = Some (Inr (4256, absorb_next tuning0 heap2 4256 144)) \<and>
   GET_SIZE (absorb_next tuning0 heap2 4256 144) (HDRP 4256) = 144 \<and>
   (\<exists>s1. extend_heap tuning0 heap2 4112 = Some (4288, s1) \<and>
      mm_realloc tuning0 heap2 4256 1000 = Some (Inr (4256, absorb_next tuning0 s1 4256 4256)) \<and>
      GET_SIZE (absorb_next tuning0 s1 4256 4256) (HDRP 4256) = 4256)"
proof -
  have h: "GET_SIZE heap2 (HDRP 4256) = 32" "GET_SIZE heap2 (HDRP (NEXT_BLKP heap2 4256)) = 112"
    "GET_ALLOC heap2 (HDRP (NEXT_BLKP heap2 4256)) = 0"
    by (simp_all add: heap2_eq macro_defs)
  have a: "align_size tuning0 100 = 120" "align_size tuning0 1000 = 1016"
    by (simp_all add: tuning0_def macro_defs)
  have "case extend_heap tuning0 heap2 4112 of Some (r, s1) \<Rightarrow> r = 4288 | None \<Rightarrow> False"
    supply TrueI [simproc del: let_simp]
    by (simp add: heap2_eq mm_eval
        cong: let_weak_cong prod.case_cong_weak sum.case_cong_weak split del: if_split)
  then obtain s1 where e: "extend_heap tuning0 heap2 4112 = Some (4288, s1)"
    by (auto split: option.splits)
  note t1 = mm_realloc_in_place_header [of 100 heap2 4256 tuning0]
  note t2 = mm_realloc_in_place_header [of 1000 heap2 4256 tuning0]
  have r1: "mm_realloc tuning0 heap2 4256 100 =
      Some (Inr (4256, absorb_next tuning0 heap2 4256 144)) \<and>
      GET_SIZE (absorb_next tuning0 heap2 4256 144) (HDRP 4256) = 144"
    using t1 by (simp add: h a ALIGNMENT_def)
  have r2: "mm_realloc tuning0 heap2 4256 1000 =
      Some (Inr (4256, absorb_next tuning0 s1 4256 4256)) \<and>
      GET_SIZE (absorb_next tuning0 s1 4256 4256) (HDRP 4256) = 4256"
    using t2 e by (simp add: h a ALIGNMENT_def CHUNKSIZE_def DSIZE_def WSIZE_def)
  from h a r1 r2 e show ?thesis by blast
qed




section \<open>Resize when the fallback allocation fails\<close>

text \<open>
  C2 at a failing input. In \<open>heap_full\<close> the block at 4256 (size 32) is followed by an
  allocated block, no free block is left and the region cannot grow. \<^verbatim>\<open>mm_realloc(4256, 100)\<close>
  takes the fallback path; its \<^verbatim>\<open>mm_malloc\<close> returns \<^verbatim>\<open>NULL\<close> with the heap unchanged, and
  \<^verbatim>\<open>mm_realloc\<close>, which does not test that result, copies into the null pointer.
\<close>

theorem mm_realloc_fallback_copies_into_null:
  "GET_ALLOC heap_full (HDRP 4256) = 1 \<and> GET_SIZE heap_full (HDRP 4256) = 32 \<and>
   GET_ALLOC heap_full (HDRP (NEXT_BLKP heap_full 4256)) = 1 \<and>
   GET_SIZE heap_full (HDRP (NEXT_BLKP heap_full 4256)) = 112 \<and>
   mm_malloc tuning0 heap_full (align_size tuning0 100) = Some (0, heap_full) \<and>
   mm_realloc tuning0 heap_full 4256 100 = Some (Inl NullWrite)"
  supply TrueI [simproc del: let_simp]
  by (simp add: heap_full_eq mm_eval
      cong: let_weak_cong prod.case_cong_weak sum.case_cong_weak split del: if_split)

section \<open>A resize next to a free block that is not the last block\<close>

text \<open>
  Case 1-a of \<^verbatim>\<open>mm_realloc\<close> extends the heap whenever the right neighbour is free or the
  epilogue and too small, and then writes \<^verbatim>\<open>size + rem_size\<close> into the block's header as
  if the extension lay right behind the neighbour. When allocated blocks lie between the
  free neighbour and the end of the heap, the block's header then covers them. The two
  call sequences below run the model through such a resize.
\<close>

lemma a1_eq:
  "a1 =
   \<lparr>mem = (\<lambda>a. 0) (4096 := 0, 4232 := 17, 4240 := 17, 4104 := 0, 4112 := 0,
     4128 := 0, 4136 := 0, 4144 := 0, 4152 := 0, 4168 := 0, 4176 := 0, 4184 := 0, 4192
     := 0, 4200 := 0, 4208 := 0, 4216 := 0, 4224 := 0, 4384 := 144, 4392 := 4192, 8584
     := Suc 0, 4400 := 0, 4408 := 0, 4256 := 0, 4264 := 0, 4160 := 0, 4248 := 4193, 8432
     := 4193, 8440 := 144, 8576 := 144, 8448 := 0, 8456 := 0, 4120 := 8448), heap_ptr =
     4240, mem_brk = 8592, mem_max_addr = 104096\<rparr>"
  supply TrueI [simproc del: let_simp]
  by (simp add: a1_def heap0_eq mm_eval
      cong: let_weak_cong prod.case_cong_weak sum.case_cong_weak split del: if_split)

lemma a2_eq:
  "a2 =
   \<lparr>mem = (\<lambda>a. 0) (4096 := 0, 4232 := 17, 4240 := 17, 4104 := 0, 4128 := 0,
     4136 := 0, 4144 := 0, 4152 := 0, 4168 := 0, 4176 := 0, 4184 := 0, 4192 := 0, 4200
     := 0, 4208 := 0, 4216 := 0, 4224 := 0, 4384 := 144, 4392 := 4192, 8584 := Suc 0,
     4400 := 0, 4408 := 0, 4256 := 0, 4264 := 0, 4160 := 0, 4248 := 4193, 8432 := 4193,
     8448 := 0, 8456 := 0, 4120 := 0, 8440 := 33, 8464 := 33, 8472 := 112, 8576 := 112,
     8480 := 0, 8488 := 0, 4112 := 8480), heap_ptr = 4240, mem_brk = 8592, mem_max_addr
     = 104096\<rparr>"
  supply TrueI [simproc del: let_simp]
  by (simp add: a2_def a1_eq mm_eval
      cong: let_weak_cong prod.case_cong_weak sum.case_cong_weak split del: if_split)

lemma a3_eq:
  "a3 =
   \<lparr>mem = (\<lambda>a. 0) (4096 := 0, 4232 := 17, 4240 := 17, 4104 := 0, 4128 := 0,
     4136 := 0, 4144 := 0, 4152 := 0, 4168 := 0, 4176 := 0, 4184 := 0, 4192 := 0, 4200
     := 0, 4208 := 0, 4216 := 0, 4224 := 0, 4384 := 144, 4392 := 4192, 8584 := Suc 0,
     4400 := 0, 4408 := 0, 4256 := 0, 4264 := 0, 4160 := 0, 4248 := 4193, 8432 := 4193,
     8448 := 0, 8456 := 0, 4120 := 0, 8440 := 33, 8464 := 33, 8480 := 0, 8488 := 0, 8472
     := 33, 8496 := 33, 8504 := 80, 8576 := 80, 8512 := 0, 8520 := 0, 4112 := 8512),
     heap_ptr = 4240, mem_brk = 8592, mem_max_addr = 104096\<rparr>"
  supply TrueI [simproc del: let_simp]
  by (simp add: a3_def a2_eq mm_eval
      cong: let_weak_cong prod.case_cong_weak sum.case_cong_weak split del: if_split)

lemma a4_eq:
  "a4 =
   \<lparr>mem = (\<lambda>a. 0) (4096 := 0, 4232 := 17, 4240 := 17, 4104 := 0, 4128 := 0,
     4136 := 0, 4144 := 0, 4152 := 0, 4168 := 0, 4176 := 0, 4184 := 0, 4192 := 0, 4200
     := 0, 4208 := 0, 4216 := 0, 4224 := 0, 4384 := 144, 4392 := 4192, 8584 := Suc 0,
     4400 := 0, 4408 := 0, 4256 := 0, 4264 := 0, 4160 := 0, 4248 := 4193, 8432 := 4193,
     8448 := 0, 8456 := 0, 4120 := 0, 8440 := 33, 8464 := 33, 8480 := 0, 8488 := 0, 8472
     := 33, 8496 := 33, 8512 := 0, 8520 := 0, 4112 := 0, 8504 := 81, 8576 := 81),
     heap_ptr = 4240, mem_brk = 8592, mem_max_addr = 104096\<rparr>"
  supply TrueI [simproc del: let_simp]
  by (simp add: a4_def a3_eq mm_eval
      cong: let_weak_cong prod.case_cong_weak sum.case_cong_weak split del: if_split)

lemma a5_eq:
  "a5 =
   \<lparr>mem = (\<lambda>a. 0) (4096 := 0, 4232 := 17, 4240 := 17, 4104 := 0, 4128 := 0,
     4136 := 0, 4144 := 0, 4152 := 0, 4168 := 0, 4176 := 0, 4184 := 0, 4192 := 0, 4200
     := 0, 4208 := 0, 4216 := 0, 4224 := 0, 4384 := 144, 4392 := 4192, 4400 := 0, 4408
     := 0, 4256 := 0, 4264 := 0, 4248 := 4193, 8432 := 4193, 8448 := 0, 8456 := 0, 4120
     := 0, 8440 := 33, 8464 := 33, 8480 := 0, 8488 := 0, 8472 := 33, 8496 := 33, 8512 :=
     0, 8520 := 0, 8504 := 81, 8576 := 81, 12696 := Suc 0, 8592 := 0, 8600 := 0, 4160 :=
     0, 8584 := 4025, 12600 := 4025, 12608 := 88, 12688 := 88, 12616 := 0, 12624 := 0,
     4112 := 12616), heap_ptr = 4240, mem_brk = 12704, mem_max_addr = 104096\<rparr>"
  supply TrueI [simproc del: let_simp]
  by (simp add: a5_def a4_eq mm_eval
      cong: let_weak_cong prod.case_cong_weak sum.case_cong_weak split del: if_split)

lemma a6_eq:
  "a6 =
   \<lparr>mem = (\<lambda>a. 0) (4096 := 0, 4232 := 17, 4240 := 17, 4128 := 0, 4136 := 0,
     4144 := 0, 4152 := 0, 4168 := 0, 4176 := 0, 4184 := 0, 4192 := 0, 4200 := 0, 4208
     := 0, 4216 := 0, 4224 := 0, 4384 := 144, 4392 := 4192, 4400 := 0, 4408 := 0, 4256
     := 0, 4264 := 0, 4248 := 4193, 8432 := 4193, 8448 := 0, 8456 := 0, 4120 := 0, 8440
     := 33, 8464 := 33, 8512 := 0, 8520 := 0, 8504 := 81, 8576 := 81, 12696 := Suc 0,
     8592 := 0, 8600 := 0, 4160 := 0, 8584 := 4025, 12600 := 4025, 12608 := 88, 12688 :=
     88, 12616 := 0, 12624 := 0, 4112 := 12616, 8472 := 32, 8496 := 32, 8480 := 0, 8488
     := 0, 4104 := 8480), heap_ptr = 4240, mem_brk = 12704, mem_max_addr =
     104096\<rparr>"
  supply TrueI [simproc del: let_simp]
  by (simp add: a6_def a5_eq mm_eval
      cong: let_weak_cong prod.case_cong_weak sum.case_cong_weak split del: if_split)

lemma a7_eq:
  "a7 =
   \<lparr>mem = (\<lambda>a. 0) (4096 := 0, 4232 := 17, 4240 := 17, 4128 := 0, 4136 := 0,
     4144 := 0, 4152 := 0, 4168 := 0, 4176 := 0, 4184 := 0, 4192 := 0, 4200 := 0, 4208
     := 0, 4216 := 0, 4224 := 0, 4384 := 144, 4392 := 4192, 4400 := 0, 4408 := 0, 8448
     := 0, 8456 := 0, 4120 := 0, 8440 := 33, 8464 := 33, 8512 := 0, 8520 := 0, 8504 :=
     81, 8576 := 81, 12696 := Suc 0, 8592 := 0, 8600 := 0, 8584 := 4025, 12600 := 4025,
     12608 := 88, 12688 := 88, 12616 := 0, 12624 := 0, 4112 := 12616, 8472 := 32, 8496
     := 32, 8480 := 0, 8488 := 0, 4104 := 8480, 4248 := 4192, 8432 := 4192, 4256 := 0,
     4264 := 0, 4160 := 4256), heap_ptr = 4240, mem_brk = 12704, mem_max_addr =
     104096\<rparr>"
  supply TrueI [simproc del: let_simp]
  by (simp add: a7_def a6_eq mm_eval
      cong: let_weak_cong prod.case_cong_weak sum.case_cong_weak split del: if_split)

lemma a8_eq:
  "a8 =
   \<lparr>mem = (\<lambda>a. 0) (4096 := 0, 4232 := 17, 4240 := 17, 4128 := 0, 4136 := 0,
     4144 := 0, 4152 := 0, 4168 := 0, 4176 := 0, 4184 := 0, 4192 := 0, 4200 := 0, 4208
     := 0, 4216 := 0, 4224 := 0, 4384 := 144, 4392 := 4192, 4400 := 0, 4408 := 0, 8448
     := 0, 8456 := 0, 4120 := 0, 8464 := 33, 8512 := 0, 8520 := 0, 8504 := 81, 8576 :=
     81, 8592 := 0, 8600 := 0, 8584 := 4025, 12600 := 4025, 12688 := 88, 8472 := 32,
     8496 := 32, 8480 := 0, 8488 := 0, 4248 := 4192, 8432 := 4192, 12696 := 4112, 16808
     := Suc 0, 12704 := 0, 12712 := 4256, 4160 := 4256, 4256 := 0, 4112 := 0, 16800 :=
     4200, 12616 := 4256, 12624 := 0, 4264 := 12616, 4104 := 0, 8440 := 4177, 12608 :=
     4177), heap_ptr = 4240, mem_brk = 16816, mem_max_addr = 104096\<rparr>"
  supply TrueI [simproc del: let_simp]
  by (simp add: a8_def a7_eq mm_eval
      cong: let_weak_cong prod.case_cong_weak sum.case_cong_weak split del: if_split)

lemma a1_step: "mm_malloc tuning0 heap0 4176 = Some (4256, a1)"
  supply TrueI [simproc del: let_simp]
  by (simp add: heap0_eq a1_eq mm_eval
      cong: let_weak_cong prod.case_cong_weak sum.case_cong_weak split del: if_split)

lemma a2_step: "mm_malloc tuning0 a1 16 = Some (8448, a2)"
  supply TrueI [simproc del: let_simp]
  by (simp add: a1_eq a2_eq mm_eval
      cong: let_weak_cong prod.case_cong_weak sum.case_cong_weak split del: if_split)

lemma a3_step: "mm_malloc tuning0 a2 16 = Some (8480, a3)"
  supply TrueI [simproc del: let_simp]
  by (simp add: a2_eq a3_eq mm_eval
      cong: let_weak_cong prod.case_cong_weak sum.case_cong_weak split del: if_split)

lemma a4_step: "mm_malloc tuning0 a3 48 = Some (8512, a4)"
  supply TrueI [simproc del: let_simp]
  by (simp add: a3_eq a4_eq mm_eval
      cong: let_weak_cong prod.case_cong_weak sum.case_cong_weak split del: if_split)

lemma a5_step: "mm_malloc tuning0 a4 4008 = Some (8592, a5)"
  supply TrueI [simproc del: let_simp]
  by (simp add: a4_eq a5_eq mm_eval
      cong: let_weak_cong prod.case_cong_weak sum.case_cong_weak split del: if_split)

lemma a6_step: "mm_free tuning0 a5 8480 = Some a6"
  supply TrueI [simproc del: let_simp]
  by (simp add: a5_eq a6_eq mm_eval
      cong: let_weak_cong prod.case_cong_weak sum.case_cong_weak split del: if_split)

lemma a7_step: "mm_free tuning0 a6 4256 = Some a7"
  supply TrueI [simproc del: let_simp]
  by (simp add: a6_eq a7_eq mm_eval
      cong: let_weak_cong prod.case_cong_weak sum.case_cong_weak split del: if_split)

lemma a8_step: "mm_realloc tuning0 a7 8448 100 = Some (Inr (8448, a8))"
  supply TrueI [simproc del: let_simp]
  by (simp add: a7_eq a8_eq mm_eval
      cong: let_weak_cong prod.case_cong_weak sum.case_cong_weak split del: if_split)

lemma b2_eq:
  "b2 =
   \<lparr>mem = (\<lambda>a. 0) (4096 := 0, 4232 := 17, 4240 := 17, 4104 := 0, 4128 := 0,
     4136 := 0, 4144 := 0, 4152 := 0, 4160 := 0, 4168 := 0, 4176 := 0, 4184 := 0, 4192
     := 0, 4200 := 0, 4208 := 0, 4216 := 0, 4224 := 0, 4392 := Suc 0, 4256 := 0, 4264 :=
     0, 4120 := 0, 4248 := 33, 4272 := 33, 4288 := 0, 4296 := 0, 4280 := 33, 4304 := 33,
     4312 := 80, 4384 := 80, 4320 := 0, 4328 := 0, 4112 := 4320), heap_ptr = 4240,
     mem_brk = 4400, mem_max_addr = 104096\<rparr>"
  supply TrueI [simproc del: let_simp]
  by (simp add: b2_def heap2_eq mm_eval
      cong: let_weak_cong prod.case_cong_weak sum.case_cong_weak split del: if_split)

lemma b3_eq:
  "b3 =
   \<lparr>mem = (\<lambda>a. 0) (4096 := 0, 4232 := 17, 4240 := 17, 4104 := 0, 4128 := 0,
     4136 := 0, 4144 := 0, 4152 := 0, 4168 := 0, 4176 := 0, 4184 := 0, 4192 := 0, 4200
     := 0, 4208 := 0, 4216 := 0, 4224 := 0, 4256 := 0, 4264 := 0, 4120 := 0, 4248 := 33,
     4272 := 33, 4288 := 0, 4296 := 0, 4280 := 33, 4304 := 33, 4384 := 80, 4392 := 4112,
     8504 := Suc 0, 4400 := 0, 4408 := 0, 4320 := 0, 4328 := 0, 4160 := 0, 4312 := 4113,
     8416 := 4113, 8424 := 80, 8496 := 80, 8432 := 0, 8440 := 0, 4112 := 8432), heap_ptr
     = 4240, mem_brk = 8512, mem_max_addr = 104096\<rparr>"
  supply TrueI [simproc del: let_simp]
  by (simp add: b3_def b2_eq mm_eval
      cong: let_weak_cong prod.case_cong_weak sum.case_cong_weak split del: if_split)

lemma b4_eq:
  "b4 =
   \<lparr>mem = (\<lambda>a. 0) (4096 := 0, 4232 := 17, 4240 := 17, 4104 := 0, 4128 := 0,
     4136 := 0, 4144 := 0, 4152 := 0, 4168 := 0, 4176 := 0, 4184 := 0, 4192 := 0, 4200
     := 0, 4208 := 0, 4216 := 0, 4224 := 0, 4256 := 0, 4264 := 0, 4120 := 0, 4248 := 33,
     4272 := 33, 4288 := 0, 4296 := 0, 4280 := 33, 4304 := 33, 4384 := 80, 4392 := 4112,
     8504 := Suc 0, 4400 := 0, 4408 := 0, 4320 := 0, 4328 := 0, 4160 := 0, 4312 := 4113,
     8416 := 4113, 8432 := 0, 8440 := 0, 4112 := 0, 8424 := 81, 8496 := 81), heap_ptr =
     4240, mem_brk = 8512, mem_max_addr = 104096\<rparr>"
  supply TrueI [simproc del: let_simp]
  by (simp add: b4_def b3_eq mm_eval
      cong: let_weak_cong prod.case_cong_weak sum.case_cong_weak split del: if_split)

lemma b5_eq:
  "b5 =
   \<lparr>mem = (\<lambda>a. 0) (4096 := 0, 4232 := 17, 4240 := 17, 4104 := 0, 4128 := 0,
     4136 := 0, 4144 := 0, 4152 := 0, 4168 := 0, 4176 := 0, 4184 := 0, 4192 := 0, 4200
     := 0, 4208 := 0, 4216 := 0, 4224 := 0, 4256 := 0, 4264 := 0, 4120 := 0, 4248 := 33,
     4272 := 33, 4288 := 0, 4296 := 0, 4280 := 33, 4304 := 33, 4384 := 80, 4392 := 4112,
     8504 := Suc 0, 4400 := 0, 4408 := 0, 8432 := 0, 8440 := 0, 4112 := 0, 8424 := 81,
     8496 := 81, 4312 := 4112, 8416 := 4112, 4320 := 0, 4328 := 0, 4160 := 4320),
     heap_ptr = 4240, mem_brk = 8512, mem_max_addr = 104096\<rparr>"
  supply TrueI [simproc del: let_simp]
  by (simp add: b5_def b4_eq mm_eval
      cong: let_weak_cong prod.case_cong_weak sum.case_cong_weak split del: if_split)

lemma b6_eq:
  "b6 =
   \<lparr>mem = (\<lambda>a. 0) (4096 := 0, 4232 := 17, 4240 := 17, 4104 := 0, 4128 := 0,
     4136 := 0, 4144 := 0, 4152 := 0, 4168 := 0, 4176 := 0, 4184 := 0, 4192 := 0, 4200
     := 0, 4208 := 0, 4216 := 0, 4224 := 0, 4256 := 0, 4264 := 0, 4120 := 0, 4248 := 33,
     4272 := 33, 4288 := 0, 4296 := 0, 4280 := 33, 4304 := 33, 4384 := 80, 4392 := 4112,
     8504 := Suc 0, 4400 := 0, 4408 := 0, 8416 := 4112, 8424 := 80, 8432 := 0, 8440 :=
     0, 4112 := 0, 4312 := 4192, 8496 := 4192, 4320 := 0, 4328 := 0, 4160 := 4320),
     heap_ptr = 4240, mem_brk = 8512, mem_max_addr = 104096\<rparr>"
  supply TrueI [simproc del: let_simp]
  by (simp add: b6_def b5_eq mm_eval
      cong: let_weak_cong prod.case_cong_weak sum.case_cong_weak split del: if_split)

lemma b7_eq:
  "b7 =
   \<lparr>mem = (\<lambda>a. 0) (4096 := 0, 4232 := 17, 4240 := 17, 4104 := 0, 4128 := 0,
     4136 := 0, 4144 := 0, 4152 := 0, 4168 := 0, 4176 := 0, 4184 := 0, 4192 := 0, 4200
     := 0, 4208 := 0, 4216 := 0, 4224 := 0, 4256 := 0, 4264 := 0, 4120 := 0, 4248 := 33,
     4272 := 33, 4288 := 0, 4296 := 0, 4280 := 33, 4304 := 33, 4384 := 80, 4392 := 4112,
     8504 := Suc 0, 4400 := 0, 4408 := 0, 8416 := 4112, 8424 := 80, 8432 := 0, 8440 :=
     0, 4112 := 0, 4320 := 0, 4328 := 0, 4160 := 0, 4312 := 4193, 8496 := 4193),
     heap_ptr = 4240, mem_brk = 8512, mem_max_addr = 104096\<rparr>"
  supply TrueI [simproc del: let_simp]
  by (simp add: b7_def b6_eq mm_eval
      cong: let_weak_cong prod.case_cong_weak sum.case_cong_weak split del: if_split)

lemma b8_eq:
  "b8 =
   \<lparr>mem = (\<lambda>a. 0) (4096 := 0, 4232 := 17, 4240 := 17, 4128 := 0, 4136 := 0,
     4144 := 0, 4152 := 0, 4168 := 0, 4176 := 0, 4184 := 0, 4192 := 0, 4200 := 0, 4208
     := 0, 4216 := 0, 4224 := 0, 4256 := 0, 4264 := 0, 4120 := 0, 4248 := 33, 4272 :=
     33, 4384 := 80, 4392 := 4112, 8504 := Suc 0, 4400 := 0, 4408 := 0, 8416 := 4112,
     8424 := 80, 8432 := 0, 8440 := 0, 4112 := 0, 4320 := 0, 4328 := 0, 4160 := 0, 4312
     := 4193, 8496 := 4193, 4280 := 32, 4304 := 32, 4288 := 0, 4296 := 0, 4104 := 4288),
     heap_ptr = 4240, mem_brk = 8512, mem_max_addr = 104096\<rparr>"
  supply TrueI [simproc del: let_simp]
  by (simp add: b8_def b7_eq mm_eval
      cong: let_weak_cong prod.case_cong_weak sum.case_cong_weak split del: if_split)

lemma b9_eq:
  "b9 =
   \<lparr>mem = (\<lambda>a. 0) (4096 := 0, 4232 := 17, 4240 := 17, 4128 := 0, 4136 := 0,
     4144 := 0, 4152 := 0, 4168 := 0, 4176 := 0, 4184 := 0, 4192 := 0, 4200 := 0, 4208
     := 0, 4216 := 0, 4224 := 0, 4256 := 0, 4264 := 0, 4120 := 0, 4272 := 33, 4384 :=
     80, 4392 := 4112, 4400 := 0, 4408 := 0, 8424 := 80, 8432 := 0, 8440 := 0, 4112 :=
     0, 4320 := 0, 4328 := 0, 4312 := 4193, 8496 := 4193, 4280 := 32, 4304 := 32, 4288
     := 0, 4296 := 0, 8504 := 4112, 12608 := 4112, 12616 := Suc 0, 8512 := 0, 8520 := 0,
     4160 := 8512, 4104 := 0, 4248 := 4177, 8416 := 4177), heap_ptr = 4240, mem_brk =
     12624, mem_max_addr = 104096\<rparr>"
  supply TrueI [simproc del: let_simp]
  by (simp add: b9_def b8_eq mm_eval
      cong: let_weak_cong prod.case_cong_weak sum.case_cong_weak split del: if_split)

lemma b1_step: "mm_malloc tuning0 heap0 16 = Some (4256, heap2)"
  supply TrueI [simproc del: let_simp]
  by (simp add: heap0_eq heap2_eq mm_eval
      cong: let_weak_cong prod.case_cong_weak sum.case_cong_weak split del: if_split)

lemma b2_step: "mm_malloc tuning0 heap2 16 = Some (4288, b2)"
  supply TrueI [simproc del: let_simp]
  by (simp add: heap2_eq b2_eq mm_eval
      cong: let_weak_cong prod.case_cong_weak sum.case_cong_weak split del: if_split)

lemma b3_step: "mm_malloc tuning0 b2 4096 = Some (4320, b3)"
  supply TrueI [simproc del: let_simp]
  by (simp add: b2_eq b3_eq mm_eval
      cong: let_weak_cong prod.case_cong_weak sum.case_cong_weak split del: if_split)

lemma b4_step: "mm_malloc tuning0 b3 48 = Some (8432, b4)"
  supply TrueI [simproc del: let_simp]
  by (simp add: b3_eq b4_eq mm_eval
      cong: let_weak_cong prod.case_cong_weak sum.case_cong_weak split del: if_split)

lemma b5_step: "mm_free tuning0 b4 4320 = Some b5"
  supply TrueI [simproc del: let_simp]
  by (simp add: b4_eq b5_eq mm_eval
      cong: let_weak_cong prod.case_cong_weak sum.case_cong_weak split del: if_split)

lemma b6_step: "mm_free tuning0 b5 8432 = Some b6"
  supply TrueI [simproc del: let_simp]
  by (simp add: b5_eq b6_eq mm_eval
      cong: let_weak_cong prod.case_cong_weak sum.case_cong_weak split del: if_split)

lemma b7_step: "mm_malloc tuning0 b6 4160 = Some (4320, b7)"
  supply TrueI [simproc del: let_simp]
  by (simp add: b6_eq b7_eq mm_eval
      cong: let_weak_cong prod.case_cong_weak sum.case_cong_weak split del: if_split)

lemma b8_step: "mm_free tuning0 b7 4288 = Some b8"
  supply TrueI [simproc del: let_simp]
  by (simp add: b7_eq b8_eq mm_eval
      cong: let_weak_cong prod.case_cong_weak sum.case_cong_weak split del: if_split)

lemma b9_step: "mm_realloc tuning0 b8 4256 100 = Some (Inr (4256, b9))"
  supply TrueI [simproc del: let_simp]
  by (simp add: b8_eq b9_eq mm_eval
      cong: let_weak_cong prod.case_cong_weak sum.case_cong_weak split del: if_split)


text \<open>
  C7 at a failing input: after \<^verbatim>\<open>mm_init\<close>, five allocations and two releases, the block
  at 8448 (size 32) has the free right neighbour 8480 (size 32), which is followed by the
  allocated blocks 8512 and 8592 and the free block 12616. Class 7 holds the free block
  4256 (size 4192) alone. \<^verbatim>\<open>mm_realloc(8448, 100)\<close> extends the heap; the new chunk merges
  with 12616 (size 4200), which enters class 7 behind 4256; then the footer of the
  resized block is written at \<open>8448 + 4176 - 16 = 12608\<close>, the header of 12616. Class 7
  is now 4256 (size 4192) followed by 12616 (size 4176, marked allocated).
\<close>

theorem free_list_out_of_order_after_resize:
  "mm_init tuning0 (blank 100000) = Some (0, heap0) \<and>
   mm_malloc tuning0 heap0 4176 = Some (4256, a1) \<and>
   mm_malloc tuning0 a1 16 = Some (8448, a2) \<and>
   mm_malloc tuning0 a2 16 = Some (8480, a3) \<and>
   mm_malloc tuning0 a3 48 = Some (8512, a4) \<and>
   mm_malloc tuning0 a4 4008 = Some (8592, a5) \<and>
   mm_free tuning0 a5 8480 = Some a6 \<and>
   mm_free tuning0 a6 4256 = Some a7 \<and>
   GET a7 (freelists a7 7) = 4256 \<and> SUCC_BLKP a7 4256 = 0 \<and>
   GET_ALLOC a7 (HDRP (NEXT_BLKP a7 8448)) = 0 \<and>
   GET_SIZE a7 (HDRP (NEXT_BLKP a7 (NEXT_BLKP a7 8448))) = 80 \<and>
   mm_realloc tuning0 a7 8448 100 = Some (Inr (8448, a8)) \<and>
   GET a8 (freelists a8 7) = 4256 \<and> SUCC_BLKP a8 4256 = 12616 \<and> SUCC_BLKP a8 12616 = 0 \<and>
   GET_SIZE a8 (HDRP 4256) = 4192 \<and> GET_SIZE a8 (HDRP 12616) = 4176 \<and>
   GET_ALLOC a8 (HDRP 12616) = 1"
proof -
  have before: "GET a7 (freelists a7 7) = 4256 \<and> SUCC_BLKP a7 4256 = 0 \<and>
      GET_ALLOC a7 (HDRP (NEXT_BLKP a7 8448)) = 0 \<and>
      GET_SIZE a7 (HDRP (NEXT_BLKP a7 (NEXT_BLKP a7 8448))) = 80"
    by (simp add: a7_eq macro_defs)
  have after: "GET a8 (freelists a8 7) = 4256 \<and> SUCC_BLKP a8 4256 = 12616 \<and>
      SUCC_BLKP a8 12616 = 0 \<and> GET_SIZE a8 (HDRP 4256) = 4192 \<and>
      GET_SIZE a8 (HDRP 12616) = 4176 \<and> GET_ALLOC a8 (HDRP 12616) = 1"
    by (simp add: a8_eq macro_defs)
  from heap0_init a1_step a2_step a3_step a4_step a5_step a6_step a7_step a8_step
    before after
  show ?thesis by blast
qed

text \<open>
  C1 at a failing input: after \<^verbatim>\<open>mm_init\<close>, five allocations and three releases, the
  heap is the allocated block 4256 (size 32), the free block 4288 (size 32) and the
  allocated block 4320 (size 4192), which holds in its payload, at 8424, the old header
  of a free block of size 80 that was merged away. \<^verbatim>\<open>mm_realloc(4256, 100)\<close> extends the
  heap by the free block 8512 and gives the block 4256 the size 32 + 32 + 4112 = 4176.
  The walk by headers now goes from 4256 to 8432 and then to 8512: two adjacent blocks
  that are both free. The block 4256 also covers the header and the payload of 4320, which
  is still allocated.
\<close>

theorem adjacent_free_blocks_after_resize:
  "mm_init tuning0 (blank 100000) = Some (0, heap0) \<and>
   mm_malloc tuning0 heap0 16 = Some (4256, heap2) \<and>
   mm_malloc tuning0 heap2 16 = Some (4288, b2) \<and>
   mm_malloc tuning0 b2 4096 = Some (4320, b3) \<and>
   mm_malloc tuning0 b3 48 = Some (8432, b4) \<and>
   mm_free tuning0 b4 4320 = Some b5 \<and>
   mm_free tuning0 b5 8432 = Some b6 \<and>
   mm_malloc tuning0 b6 4160 = Some (4320, b7) \<and>
   mm_free tuning0 b7 4288 = Some b8 \<and>
   heap_walk b8 (heap_ptr b8) = [4240, 4256, 4288, 4320, 8512] \<and>
   map (\<lambda>bp. GET_ALLOC b8 (HDRP bp)) [4240, 4256, 4288, 4320, 8512] = [1, 1, 0, 1, 1] \<and>
   mm_realloc tuning0 b8 4256 100 = Some (Inr (4256, b9)) \<and>
   heap_walk b9 (heap_ptr b9) = [4240, 4256, 8432, 8512, 12624] \<and>
   map (\<lambda>bp. GET_ALLOC b9 (HDRP bp)) [4240, 4256, 8432, 8512, 12624] = [1, 1, 0, 0, 1] \<and>
   map (\<lambda>bp. GET_SIZE b9 (HDRP bp)) [4240, 4256, 8432, 8512, 12624] = [16, 4176, 80, 4112, 0] \<and>
   GET_ALLOC b9 (HDRP 4320) = 1 \<and> GET_SIZE b9 (HDRP 4320) = 4192"
proof -
  have before: "heap_walk b8 (heap_ptr b8) = [4240, 4256, 4288, 4320, 8512] \<and>
      map (\<lambda>bp. GET_ALLOC b8 (HDRP bp)) [4240, 4256, 4288, 4320, 8512] = [1, 1, 0, 1, 1]"
    by (simp add: b8_eq heap_walk.simps macro_defs split del: if_split)
  have after: "heap_walk b9 (heap_ptr b9) = [4240, 4256, 8432, 8512, 12624] \<and>
      map (\<lambda>bp. GET_ALLOC b9 (HDRP bp)) [4240, 4256, 8432, 8512, 12624] = [1, 1, 0, 0, 1] \<and>
      map (\<lambda>bp. GET_SIZE b9 (HDRP bp)) [4240, 4256, 8432, 8512, 12624] =
        [16, 4176, 80, 4112, 0] \<and>
      GET_ALLOC b9 (HDRP 4320) = 1 \<and> GET_SIZE b9 (HDRP 4320) = 4192"
    by (simp add: b9_eq heap_walk.simps macro_defs split del: if_split)
  from heap0_init b1_step b2_step b3_step b4_step b5_step b6_step b7_step b8_step b9_step
    before after
  show ?thesis by blast
qed

text \<open>
  C10 at two failing inputs. First, the resize of the second call sequence above: the
  block 4256 (size 32) in \<open>b8\<close> has the free right neighbour 4288 (size 32), the rounded
  request is 120, and the heap is extended by 4112 bytes at 8512. Afterwards the header
  of 4256 holds 32 + 32 + 4112 = 4176, but the block ends at 8432: the extension chunk
  at 8512 is not part of it. The chunk is still a free block and the head of class 7, and
  what the block covers instead is the allocated block 4320. Second, in \<open>heap2\<close> (block
  4256 of size 32 before the last free block of size 112) a request of \<open>2 ^ 32 + 100\<close>
  bytes rounds to \<open>2 ^ 32 + 120\<close>; \<^verbatim>\<open>rem_size\<close>, an \<^verbatim>\<open>int\<close>, becomes 24, the heap is not
  extended, and the header gets the size \<open>2 ^ 32 + 144\<close>, not 32 + 112.
\<close>

theorem mm_realloc_extension_not_absorbed:
  "mm_init tuning0 (blank 100000) = Some (0, heap0) \<and>
   mm_malloc tuning0 heap0 16 = Some (4256, heap2) \<and>
   mm_malloc tuning0 heap2 16 = Some (4288, b2) \<and>
   mm_malloc tuning0 b2 4096 = Some (4320, b3) \<and>
   mm_malloc tuning0 b3 48 = Some (8432, b4) \<and>
   mm_free tuning0 b4 4320 = Some b5 \<and>
   mm_free tuning0 b5 8432 = Some b6 \<and>
   mm_malloc tuning0 b6 4160 = Some (4320, b7) \<and>
   mm_free tuning0 b7 4288 = Some b8 \<and>
   GET_SIZE b8 (HDRP 4256) = 32 \<and> GET_ALLOC b8 (HDRP 4256) = 1 \<and>
   GET_ALLOC b8 (HDRP (NEXT_BLKP b8 4256)) = 0 \<and>
   GET_SIZE b8 (HDRP (NEXT_BLKP b8 4256)) = 32 \<and>
   align_size tuning0 100 = 120 \<and> mem_brk b8 = 8512 \<and>
   mm_realloc tuning0 b8 4256 100 = Some (Inr (4256, b9)) \<and>
   mem_brk b9 = 8512 + 4112 \<and>
   GET_SIZE b9 (HDRP 4256) = 32 + 32 + 4112 \<and> GET_ALLOC b9 (HDRP 4256) = 1 \<and>
   NEXT_BLKP b9 4256 = 8432 \<and>
   GET_SIZE b9 (HDRP 8512) = 4112 \<and> GET_ALLOC b9 (HDRP 8512) = 0 \<and>
   GET b9 (freelists b9 7) = 8512 \<and>
   GET_SIZE b9 (HDRP 4320) = 4192 \<and> GET_ALLOC b9 (HDRP 4320) = 1 \<and>
   GET_SIZE heap2 (HDRP 4256) = 32 \<and> GET_SIZE heap2 (HDRP (NEXT_BLKP heap2 4256)) = 112 \<and>
   GET_ALLOC heap2 (HDRP (NEXT_BLKP heap2 4256)) = 0 \<and>
   align_size tuning0 4294967396 = 4294967416 \<and>
   (case mm_realloc tuning0 heap2 4256 4294967396 of
      Some (Inr (r, s)) \<Rightarrow>
        r = 4256 \<and> mem_brk s = mem_brk heap2 \<and> GET_SIZE s (HDRP 4256) = 4294967440
    | _ \<Rightarrow> False)"
proof -
  have before: "GET_SIZE b8 (HDRP 4256) = 32 \<and> GET_ALLOC b8 (HDRP 4256) = 1 \<and>
      GET_ALLOC b8 (HDRP (NEXT_BLKP b8 4256)) = 0 \<and>
      GET_SIZE b8 (HDRP (NEXT_BLKP b8 4256)) = 32 \<and> mem_brk b8 = 8512"
    by (simp add: b8_eq macro_defs)
  have a: "align_size tuning0 100 = 120" "align_size tuning0 4294967396 = 4294967416"
    by (simp_all add: tuning0_def macro_defs)
  have after: "mem_brk b9 = 8512 + 4112 \<and>
      GET_SIZE b9 (HDRP 4256) = 32 + 32 + 4112 \<and> GET_ALLOC b9 (HDRP 4256) = 1 \<and>
      NEXT_BLKP b9 4256 = 8432 \<and>
      GET_SIZE b9 (HDRP 8512) = 4112 \<and> GET_ALLOC b9 (HDRP 8512) = 0 \<and>
      GET b9 (freelists b9 7) = 8512 \<and>
      GET_SIZE b9 (HDRP 4320) = 4192 \<and> GET_ALLOC b9 (HDRP 4320) = 1"
    by (simp add: b9_eq macro_defs)
  have h: "GET_SIZE heap2 (HDRP 4256) = 32 \<and>
      GET_SIZE heap2 (HDRP (NEXT_BLKP heap2 4256)) = 112 \<and>
      GET_ALLOC heap2 (HDRP (NEXT_BLKP heap2 4256)) = 0"
    by (simp add: heap2_eq macro_defs)
  have wrap: "(case mm_realloc tuning0 heap2 4256 4294967396 of
      Some (Inr (r, s)) \<Rightarrow>
        r = 4256 \<and> mem_brk s = mem_brk heap2 \<and> GET_SIZE s (HDRP 4256) = 4294967440
    | _ \<Rightarrow> False)"
    supply TrueI [simproc del: let_simp]
    by (simp add: heap2_eq mm_eval
        cong: let_weak_cong prod.case_cong_weak sum.case_cong_weak split del: if_split)
  from heap0_init b1_step b2_step b3_step b4_step b5_step b6_step b7_step b8_step b9_step
    before a after h wrap
  show ?thesis by blast
qed

end
